theory Spec2Isabelle
  imports Main "HOL-Library.AList"
begin

section \<open>Python values of the module\<close>

text \<open>
  The module \<^verbatim>\<open>consul_token.py\<close> handles documents decoded from JSON by
  \<^verbatim>\<open>response.json()\<close> and the parameters of the Ansible module. A document is a
  value of \<open>json\<close>: \<open>JNull\<close> is Python's \<^verbatim>\<open>None\<close>, \<open>JObj\<close> a \<^verbatim>\<open>dict\<close>
  with string keys in insertion order (a repeated key stands for its first binding),
  \<open>JList\<close> a \<^verbatim>\<open>list\<close>. Numbers are integers; a string is a list of characters, one
  per code point.
\<close>

datatype json =
    JNull
  | JBool bool
  | JInt int
  | JStr string
  | JList "json list"
  | JObj "(string \<times> json) list"

type_synonym dict = "(string \<times> json) list"

text \<open>
  Python's \<^verbatim>\<open>==\<close> on such values: \<^verbatim>\<open>True == 1\<close> and \<^verbatim>\<open>False == 0\<close>, lists are
  compared element by element, dicts as mappings (the order of the keys is ignored).
  \<^verbatim>\<open>a != b\<close> is its negation.
\<close>

fun py_eq :: "json \<Rightarrow> json \<Rightarrow> bool" where
  "py_eq JNull JNull = True"
| "py_eq (JBool a) (JBool b) = (a = b)"
| "py_eq (JBool a) (JInt j) = ((if a then 1 else 0) = j)"
| "py_eq (JInt i) (JBool b) = (i = (if b then 1 else 0))"
| "py_eq (JInt i) (JInt j) = (i = j)"
| "py_eq (JStr s) (JStr t) = (s = t)"
| "py_eq (JList xs) (JList ys) = list_all2 py_eq xs ys"
| "py_eq (JObj a) (JObj b) =
     (list_all (\<lambda>(k, w). map_of a k \<noteq> None) b \<and>
      list_all (\<lambda>(k, v). map_of a k = Some v \<longrightarrow>
         (case map_of b k of None \<Rightarrow> False | Some w \<Rightarrow> py_eq v w)) a)"
| "py_eq _ _ = False"

text \<open>
  The exceptions that can leave a function of the module. \<open>ValueError\<close> carries the
  message of a \<^verbatim>\<open>raise ValueError(...)\<close> of the module; \<open>InvalidLiteral\<close> is the
  \<^verbatim>\<open>ValueError\<close> of \<^verbatim>\<open>int()\<close> and \<open>UpdateSequenceError\<close> the \<^verbatim>\<open>ValueError\<close> of
  \<^verbatim>\<open>dict.update\<close> on a sequence element that is not a pair; \<open>RequestError\<close> carries
  the status code and the content of the response it reports.
\<close>

datatype error =
    KeyError
  | TypeError
  | AttributeError
  | IndexError
  | ValueError string
  | InvalidLiteral
  | UpdateSequenceError
  | JSONDecodeError
  | RequestError int string
  | ConnectionError string
  | OtherRequestsException string

text \<open>\<^verbatim>\<open>x[k]\<close> for a string \<open>k\<close>: only a dict can be subscripted by a string.\<close>

definition subscript :: "json \<Rightarrow> string \<Rightarrow> error + json" where
  "subscript x k =
     (case x of
        JObj d \<Rightarrow> (case map_of d k of None \<Rightarrow> Inl KeyError | Some v \<Rightarrow> Inr v)
      | _ \<Rightarrow> Inl TypeError)"

text \<open>\<^verbatim>\<open>x.get(k, None)\<close>: only a dict has the method.\<close>

definition get_default :: "json \<Rightarrow> string \<Rightarrow> error + json" where
  "get_default x k =
     (case x of
        JObj d \<Rightarrow> Inr (case map_of d k of None \<Rightarrow> JNull | Some v \<Rightarrow> v)
      | _ \<Rightarrow> Inl AttributeError)"

text \<open>Whether \<^verbatim>\<open>hash(x)\<close> succeeds, that is, whether \<open>x\<close> can be a key of a dict.\<close>

definition hashable :: "json \<Rightarrow> bool" where
  "hashable x = (case x of JList _ \<Rightarrow> False | JObj _ \<Rightarrow> False | _ \<Rightarrow> True)"

text \<open>The elements \<^verbatim>\<open>for t in x\<close> visits: a dict yields its keys, a string its characters.\<close>

definition dict_keys :: "dict \<Rightarrow> string list" where
  "dict_keys d = rev (remdups (rev (map fst d)))"

definition py_iter :: "json \<Rightarrow> error + json list" where
  "py_iter x =
     (case x of
        JList xs \<Rightarrow> Inr xs
      | JObj d \<Rightarrow> Inr (map JStr (dict_keys d))
      | JStr s \<Rightarrow> Inr (map (\<lambda>c. JStr [c]) s)
      | _ \<Rightarrow> Inl TypeError)"

text \<open>
  \<^verbatim>\<open>d.update(x)\<close> on a dict \<open>d\<close>. A dict argument overwrites key by key. Any other
  iterable is read as a sequence of key/value pairs, each an iterable of two elements.
  The merged dict of the module is only ever read at string keys, so a pair whose key is
  not a string is checked for hashability and then left out.
\<close>

fun update_pair :: "json \<Rightarrow> dict \<Rightarrow> error + dict" where
  "update_pair (JList [k, v]) d =
     (if \<not> hashable k then Inl TypeError
      else (case k of JStr s \<Rightarrow> Inr (AList.update s v d) | _ \<Rightarrow> Inr d))"
| "update_pair (JList _) d = Inl UpdateSequenceError"
| "update_pair (JStr [a, b]) d = Inr (AList.update [a] (JStr [b]) d)"
| "update_pair (JStr _) d = Inl UpdateSequenceError"
| "update_pair (JObj e) d =
     (case dict_keys e of
        [k1, k2] \<Rightarrow> Inr (AList.update k1 (JStr k2) d)
      | _ \<Rightarrow> Inl UpdateSequenceError)"
| "update_pair _ d = Inl TypeError"

fun update_pairs :: "json list \<Rightarrow> dict \<Rightarrow> error + dict" where
  "update_pairs [] d = Inr d"
| "update_pairs (p # ps) d =
     (case update_pair p d of Inl e \<Rightarrow> Inl e | Inr d' \<Rightarrow> update_pairs ps d')"

definition dict_update :: "dict \<Rightarrow> json \<Rightarrow> error + dict" where
  "dict_update d x =
     (case x of
        JObj e \<Rightarrow> Inr (AList.merge d e)
      | JList ps \<Rightarrow> update_pairs ps d
      | JStr s \<Rightarrow> update_pairs (map (\<lambda>c. JStr [c]) s) d
      | _ \<Rightarrow> Inl TypeError)"

text \<open>\<^verbatim>\<open>x.copy()\<close> where \<open>x\<close> is to be a dict.\<close>

definition dict_copy :: "json \<Rightarrow> error + dict" where
  "dict_copy x = (case x of JObj d \<Rightarrow> Inr d | _ \<Rightarrow> Inl AttributeError)"

text \<open>The value of \<^verbatim>\<open>d.get(k, None)\<close> for a dict \<open>d\<close>.\<close>

definition dict_get :: "dict \<Rightarrow> string \<Rightarrow> json" where
  "dict_get d k = (case map_of d k of None \<Rightarrow> JNull | Some v \<Rightarrow> v)"

text \<open>\<^verbatim>\<open>'%s' % n\<close> for an integer \<open>n\<close>.\<close>

fun str_nat :: "nat \<Rightarrow> string" where
  "str_nat n =
     (if n < 10 then [''0123456789'' ! n]
      else str_nat (n div 10) @ [''0123456789'' ! (n mod 10)])"

declare str_nat.simps [simp del]

definition str_int :: "int \<Rightarrow> string" where
  "str_int i = (if i < 0 then CHR ''-'' # str_nat (nat (- i)) else str_nat (nat i))"

text \<open>
  \<^verbatim>\<open>int(s)\<close> for a string: surrounding whitespace is stripped, one sign is allowed,
  and the digits may be grouped by single underscores.
\<close>

definition is_space :: "char \<Rightarrow> bool" where
  "is_space c = ((of_char c :: nat) \<in> {9, 10, 11, 12, 13, 32, 133, 160})"

definition is_digit :: "char \<Rightarrow> bool" where
  "is_digit c = (48 \<le> (of_char c :: nat) \<and> (of_char c :: nat) \<le> 57)"

definition digit_val :: "char \<Rightarrow> nat" where
  "digit_val c = of_char c - 48"

definition py_strip :: "string \<Rightarrow> string" where
  "py_strip s = rev (dropWhile is_space (rev (dropWhile is_space s)))"

fun parse_digits :: "bool \<Rightarrow> nat \<Rightarrow> string \<Rightarrow> nat option" where
  "parse_digits after_digit acc [] = (if after_digit then Some acc else None)"
| "parse_digits after_digit acc (c # cs) =
     (if is_digit c then parse_digits True (10 * acc + digit_val c) cs
      else if c = CHR ''_'' \<and> after_digit then parse_digits False acc cs
      else None)"

definition py_int :: "string \<Rightarrow> int option" where
  "py_int s =
     (case py_strip s of
        [] \<Rightarrow> None
      | c # r \<Rightarrow>
          if c = CHR ''-'' then map_option (\<lambda>n. - int n) (parse_digits False 0 r)
          else if c = CHR ''+'' then map_option int (parse_digits False 0 r)
          else map_option int (parse_digits False 0 (c # r)))"

text \<open>\<^verbatim>\<open>s.split(c)\<close> for a separator of one character.\<close>

fun split_on :: "char \<Rightarrow> string \<Rightarrow> string list" where
  "split_on c [] = [[]]"
| "split_on c (x # xs) =
     (if x = c then [] # split_on c xs
      else (case split_on c xs of [] \<Rightarrow> [[x]] | w # ws \<Rightarrow> (x # w) # ws))"

section \<open>The classes of the module\<close>

subsection \<open>ConsulVersion\<close>

record ConsulVersion =
  major :: string
  minor :: string
  patch :: string

text \<open>
  \<^verbatim>\<open>ConsulVersion(version_string)\<close>: a value that is not a string has no \<^verbatim>\<open>split\<close>;
  fewer than three components make \<^verbatim>\<open>split[1]\<close> or \<^verbatim>\<open>split[2]\<close> fail.
\<close>

definition ConsulVersion_init :: "json \<Rightarrow> error + ConsulVersion" where
  "ConsulVersion_init version_string =
     (case version_string of
        JStr s \<Rightarrow>
          (case split_on CHR ''.'' s of
             a # b # c # _ \<Rightarrow> Inr \<lparr>major = a, minor = b, patch = c\<rparr>
           | _ \<Rightarrow> Inl IndexError)
      | _ \<Rightarrow> Inl AttributeError)"

definition version_int :: "ConsulVersion \<Rightarrow> int option" where
  "version_int v = py_int (major v @ minor v @ patch v)"

text \<open>\<^verbatim>\<open>__ge__\<close> and \<^verbatim>\<open>__le__\<close>: the left operand is parsed first.\<close>

definition ConsulVersion_ge :: "ConsulVersion \<Rightarrow> ConsulVersion \<Rightarrow> error + bool" where
  "ConsulVersion_ge self other =
     (case version_int self of
        None \<Rightarrow> Inl InvalidLiteral
      | Some x \<Rightarrow>
          (case version_int other of
             None \<Rightarrow> Inl InvalidLiteral
           | Some y \<Rightarrow> Inr (x \<ge> y)))"

definition ConsulVersion_le :: "ConsulVersion \<Rightarrow> ConsulVersion \<Rightarrow> error + bool" where
  "ConsulVersion_le self other =
     (case version_int self of
        None \<Rightarrow> Inl InvalidLiteral
      | Some x \<Rightarrow>
          (case version_int other of
             None \<Rightarrow> Inl InvalidLiteral
           | Some y \<Rightarrow> Inr (x \<le> y)))"

subsection \<open>ServiceIdentity, NodeIdentity, RoleLink, PolicyLink\<close>

record ServiceIdentity =
  si_name :: json
  si_datacenters :: json

definition service_identities_message :: string where
  "service_identities_message =
     ''Each element of service_identities must be a dict with the keys name and optionally datacenters''"

definition ServiceIdentity_init :: "json \<Rightarrow> error + ServiceIdentity" where
  "ServiceIdentity_init input =
     (case input of
        JObj d \<Rightarrow>
          (case map_of d ''name'' of
             None \<Rightarrow> Inl (ValueError service_identities_message)
           | Some n \<Rightarrow>
               Inr \<lparr>si_name = n,
                    si_datacenters =
                      (case map_of d ''datacenters'' of None \<Rightarrow> JNull | Some v \<Rightarrow> v)\<rparr>)
      | _ \<Rightarrow> Inl (ValueError service_identities_message))"

definition ServiceIdentity_to_dict :: "ServiceIdentity \<Rightarrow> json" where
  "ServiceIdentity_to_dict self =
     JObj [(''ServiceName'', si_name self), (''Datacenters'', si_datacenters self)]"

record NodeIdentity =
  ni_name :: json
  ni_datacenter :: json

definition node_identities_message :: string where
  "node_identities_message =
     ''Each element of node_identities must be a dict with the keys name and optionally datacenter''"

definition NodeIdentity_init :: "json \<Rightarrow> error + NodeIdentity" where
  "NodeIdentity_init input =
     (case input of
        JObj d \<Rightarrow>
          (case map_of d ''name'' of
             None \<Rightarrow> Inl (ValueError node_identities_message)
           | Some n \<Rightarrow>
               Inr \<lparr>ni_name = n,
                    ni_datacenter =
                      (case map_of d ''datacenter'' of None \<Rightarrow> JNull | Some v \<Rightarrow> v)\<rparr>)
      | _ \<Rightarrow> Inl (ValueError node_identities_message))"

definition NodeIdentity_to_dict :: "NodeIdentity \<Rightarrow> json" where
  "NodeIdentity_to_dict self =
     JObj [(''NodeName'', ni_name self), (''Datacenter'', ni_datacenter self)]"

text \<open>
  The links read both keys with \<^verbatim>\<open>dict.get(key, None)\<close> and check nothing; an
  argument that is not a dict has no \<^verbatim>\<open>get\<close>.
\<close>

record RoleLink =
  rl_id :: json
  rl_name :: json

definition RoleLink_init :: "json \<Rightarrow> error + RoleLink" where
  "RoleLink_init d =
     (case get_default d ''id'' of
        Inl e \<Rightarrow> Inl e
      | Inr i \<Rightarrow>
          (case get_default d ''name'' of
             Inl e \<Rightarrow> Inl e
           | Inr n \<Rightarrow> Inr \<lparr>rl_id = i, rl_name = n\<rparr>))"

definition RoleLink_to_dict :: "RoleLink \<Rightarrow> json" where
  "RoleLink_to_dict self = JObj [(''ID'', rl_id self), (''Name'', rl_name self)]"

record PolicyLink =
  pl_id :: json
  pl_name :: json

definition PolicyLink_init :: "json \<Rightarrow> error + PolicyLink" where
  "PolicyLink_init d =
     (case get_default d ''id'' of
        Inl e \<Rightarrow> Inl e
      | Inr i \<Rightarrow>
          (case get_default d ''name'' of
             Inl e \<Rightarrow> Inl e
           | Inr n \<Rightarrow> Inr \<lparr>pl_id = i, pl_name = n\<rparr>))"

definition PolicyLink_to_dict :: "PolicyLink \<Rightarrow> json" where
  "PolicyLink_to_dict self = JObj [(''ID'', pl_id self), (''Name'', pl_name self)]"

subsection \<open>Configuration and Output\<close>

text \<open>
  The parameters as \<^verbatim>\<open>module.params\<close> holds them after the argument
  specification has been applied: the four lists are lists (their elements are kept as
  documents, since the constructors test or use them as dicts themselves).
\<close>

record params =
  p_mgmt_token :: "string option"
  p_host :: string
  p_port :: int
  p_scheme :: string
  p_validate_certs :: bool
  p_id :: string
  p_description :: string
  p_roles :: "json list"
  p_policies :: "json list"
  p_service_identities :: "json list"
  p_node_identities :: "json list"
  p_local :: bool
  p_token :: "string option"
  p_state :: string

text \<open>
  \<open>version\<close> is the attribute \<^verbatim>\<open>main\<close> sets after the constructor has run; reading it
  before fails.
\<close>

record Configuration =
  management_token :: "string option"
  host :: string
  port :: int
  scheme :: string
  validate_certs :: bool
  cfg_id :: string
  description :: string
  token :: "string option"
  roles :: "RoleLink list"
  policies :: "PolicyLink list"
  service_identities :: "ServiceIdentity list"
  node_identities :: "NodeIdentity list"
  local :: bool
  state :: string
  version :: "ConsulVersion option"

text \<open>A list comprehension \<^verbatim>\<open>[f(x) for x in xs]\<close> whose \<open>f\<close> may raise.\<close>

fun comprehension :: "('a \<Rightarrow> error + 'b) \<Rightarrow> 'a list \<Rightarrow> error + 'b list" where
  "comprehension f [] = Inr []"
| "comprehension f (x # xs) =
     (case f x of
        Inl e \<Rightarrow> Inl e
      | Inr y \<Rightarrow> (case comprehension f xs of Inl e \<Rightarrow> Inl e | Inr ys \<Rightarrow> Inr (y # ys)))"

definition Configuration_init :: "params \<Rightarrow> error + Configuration" where
  "Configuration_init p =
     (case comprehension RoleLink_init (p_roles p) of
        Inl e \<Rightarrow> Inl e
      | Inr rs \<Rightarrow>
     (case comprehension PolicyLink_init (p_policies p) of
        Inl e \<Rightarrow> Inl e
      | Inr ps \<Rightarrow>
     (case comprehension ServiceIdentity_init (p_service_identities p) of
        Inl e \<Rightarrow> Inl e
      | Inr ss \<Rightarrow>
     (case comprehension NodeIdentity_init (p_node_identities p) of
        Inl e \<Rightarrow> Inl e
      | Inr ns \<Rightarrow>
          Inr \<lparr>management_token = p_mgmt_token p, host = p_host p, port = p_port p,
               scheme = p_scheme p, validate_certs = p_validate_certs p,
               cfg_id = p_id p, description = p_description p, token = p_token p,
               roles = rs, policies = ps, service_identities = ss,
               node_identities = ns, local = p_local p, state = p_state p,
               version = None\<rparr>))))"

record Output =
  changed :: bool
  operation :: string
  out_token :: "json option"

section \<open>Requests to the Consul agent\<close>

text \<open>
  A call of \<^verbatim>\<open>requests.get\<close>, \<^verbatim>\<open>requests.put\<close> or \<^verbatim>\<open>requests.delete\<close> is a
  \<open>request\<close>. The URL \<^verbatim>\<open>'%s/acl/token/%s' % (base, x)\<close> is kept as its two arguments:
  the base URL and the endpoint, which holds the value \<open>x\<close> that \<^verbatim>\<open>%s\<close> formats.
\<close>

datatype http_method = GET | PUT | DELETE

datatype endpoint =
    agent_self
  | acl_tokens
  | acl_token
  | acl_token_of json

record request =
  req_method :: http_method
  req_base :: string
  req_endpoint :: endpoint
  req_headers :: "(string \<times> string) list"
  req_json :: "json option"
  req_verify :: bool

text \<open>
  A response has a status code, its raw content, and the value of \<^verbatim>\<open>response.json()\<close>
  (\<open>None\<close> when the content is not JSON, and decoding raises).
\<close>

record response =
  status_code :: int
  content :: string
  json_of :: "json option"

text \<open>
  The network is a parameter: it answers a request, given the requests issued before
  it, with a response or with the exception \<^verbatim>\<open>requests\<close> raises. The state that the
  functions thread is the list of the requests issued so far.
\<close>

type_synonym transport = "request list \<Rightarrow> request \<Rightarrow> error + response"

type_synonym 'a io = "(error + 'a) \<times> request list"

definition requests_call :: "transport \<Rightarrow> request \<Rightarrow> request list \<Rightarrow> response io" where
  "requests_call T r log = (T log r, log @ [r])"

definition get_consul_url :: "Configuration \<Rightarrow> string" where
  "get_consul_url configuration =
     scheme configuration @ ''://'' @ host configuration @ '':'' @
     str_int (port configuration) @ ''/v1''"

definition get_auth_headers :: "Configuration \<Rightarrow> (string \<times> string) list" where
  "get_auth_headers configuration =
     (case management_token configuration of
        None \<Rightarrow> []
      | Some t \<Rightarrow> [(''X-Consul-Token'', t)])"

definition handle_consul_response_error :: "response \<Rightarrow> error + unit" where
  "handle_consul_response_error resp =
     (if 400 \<le> status_code resp \<and> status_code resp < 600
      then Inl (RequestError (status_code resp) (content resp))
      else Inr ())"

definition response_json :: "response \<Rightarrow> error + json" where
  "response_json resp =
     (case json_of resp of None \<Rightarrow> Inl JSONDecodeError | Some j \<Rightarrow> Inr j)"

text \<open>
  The two statements every function of the module starts with: the call, then
  \<^verbatim>\<open>handle_consul_response_error(response)\<close>.
\<close>

definition checked_call :: "transport \<Rightarrow> request \<Rightarrow> request list \<Rightarrow> response io" where
  "checked_call T r log =
     (case requests_call T r log of
        (Inl e, log') \<Rightarrow> (Inl e, log')
      | (Inr resp, log') \<Rightarrow>
          (case handle_consul_response_error resp of
             Inl e \<Rightarrow> (Inl e, log')
           | Inr _ \<Rightarrow> (Inr resp, log')))"

definition consul_request ::
  "Configuration \<Rightarrow> http_method \<Rightarrow> endpoint \<Rightarrow> json option \<Rightarrow> request" where
  "consul_request configuration m ep body =
     \<lparr>req_method = m, req_base = get_consul_url configuration, req_endpoint = ep,
      req_headers = get_auth_headers configuration, req_json = body,
      req_verify = validate_certs configuration\<rparr>"

subsection \<open>get_consul_version, get_tokens, get_token\<close>

definition get_consul_version ::
  "transport \<Rightarrow> Configuration \<Rightarrow> request list \<Rightarrow> ConsulVersion io" where
  "get_consul_version T configuration log =
     (case checked_call T (consul_request configuration GET agent_self None) log of
        (Inl e, log') \<Rightarrow> (Inl e, log')
      | (Inr resp, log') \<Rightarrow>
          (case response_json resp of
             Inl e \<Rightarrow> (Inl e, log')
           | Inr j \<Rightarrow>
               (case subscript j ''Config'' of
                  Inl e \<Rightarrow> (Inl e, log')
                | Inr config \<Rightarrow>
                    (case subscript config ''Version'' of
                       Inl e \<Rightarrow> (Inl e, log')
                     | Inr v \<Rightarrow> (ConsulVersion_init v, log')))))"

text \<open>
  The dict \<^verbatim>\<open>existing_tokens_mapped_by_id\<close>: its keys are the hashable values found
  under \<^verbatim>\<open>'AccessorID'\<close>. Storing under a key equal to one already present replaces
  the value and keeps the key where it is.
\<close>

type_synonym token_index = "(json \<times> json) list"

fun index_put :: "json \<Rightarrow> json \<Rightarrow> token_index \<Rightarrow> token_index" where
  "index_put k v [] = [(k, v)]"
| "index_put k v ((k', v') # rest) =
     (if py_eq k k' then (k', v) # rest else (k', v') # index_put k v rest)"

fun index_get :: "token_index \<Rightarrow> json \<Rightarrow> json option" where
  "index_get [] k = None"
| "index_get ((k', v') # rest) k = (if py_eq k k' then Some v' else index_get rest k)"

text \<open>
  The generator \<^verbatim>\<open>(token['AccessorID'], token) for token in tokens if
  token['AccessorID'] is not None\<close>, consumed by \<^verbatim>\<open>dict\<close> from left to right.
\<close>

fun map_tokens_by_id :: "json list \<Rightarrow> token_index \<Rightarrow> error + token_index" where
  "map_tokens_by_id [] acc = Inr acc"
| "map_tokens_by_id (t # ts) acc =
     (case subscript t ''AccessorID'' of
        Inl e \<Rightarrow> Inl e
      | Inr a \<Rightarrow>
          if a = JNull then map_tokens_by_id ts acc
          else if \<not> hashable a then Inl TypeError
          else map_tokens_by_id ts (index_put a t acc))"

definition get_tokens ::
  "transport \<Rightarrow> Configuration \<Rightarrow> request list \<Rightarrow> token_index io" where
  "get_tokens T configuration log =
     (case checked_call T (consul_request configuration GET acl_tokens None) log of
        (Inl e, log') \<Rightarrow> (Inl e, log')
      | (Inr resp, log') \<Rightarrow>
          (case response_json resp of
             Inl e \<Rightarrow> (Inl e, log')
           | Inr tokens \<Rightarrow>
               (case py_iter tokens of
                  Inl e \<Rightarrow> (Inl e, log')
                | Inr ts \<Rightarrow> (map_tokens_by_id ts [], log'))))"

text \<open>
  The listed tokens a key selects: those whose \<^verbatim>\<open>AccessorID\<close> is not \<^verbatim>\<open>None\<close> and
  equal to the key.
\<close>

definition listed_as :: "json \<Rightarrow> json \<Rightarrow> bool" where
  "listed_as k t =
     (case subscript t ''AccessorID'' of
        Inl e \<Rightarrow> False
      | Inr a \<Rightarrow> a \<noteq> JNull \<and> py_eq k a)"

definition get_token ::
  "transport \<Rightarrow> json \<Rightarrow> Configuration \<Rightarrow> request list \<Rightarrow> json io" where
  "get_token T ident configuration log =
     (case checked_call T (consul_request configuration GET (acl_token_of ident) None) log of
        (Inl e, log') \<Rightarrow> (Inl e, log')
      | (Inr resp, log') \<Rightarrow> (response_json resp, log'))"

subsection \<open>update_token, create_token\<close>

text \<open>
  The version gate \<^verbatim>\<open>configuration.version >= ConsulVersion(s)\<close>.
\<close>

definition version_at_least :: "Configuration \<Rightarrow> string \<Rightarrow> error + bool" where
  "version_at_least configuration s =
     (case version configuration of
        None \<Rightarrow> Inl AttributeError
      | Some v \<Rightarrow>
          (case ConsulVersion_init (JStr s) of
             Inl e \<Rightarrow> Inl e
           | Inr c \<Rightarrow> ConsulVersion_ge v c))"

text \<open>
  The two conditional assignments that follow the dict literal of a request body.
\<close>

definition add_identities :: "Configuration \<Rightarrow> dict \<Rightarrow> error + dict" where
  "add_identities configuration token_data =
     (case version_at_least configuration ''1.5.0'' of
        Inl e \<Rightarrow> Inl e
      | Inr with_service \<Rightarrow>
          (let d1 =
             (if with_service
              then AList.update ''ServiceIdentities''
                     (JList (map ServiceIdentity_to_dict (service_identities configuration)))
                     token_data
              else token_data)
           in (case version_at_least configuration ''1.8.0'' of
                 Inl e \<Rightarrow> Inl e
               | Inr with_node \<Rightarrow>
                   Inr (if with_node
                        then AList.update ''NodeIdentities''
                               (JList (map NodeIdentity_to_dict (node_identities configuration)))
                               d1
                        else d1))))"

definition update_token_data :: "Configuration \<Rightarrow> error + dict" where
  "update_token_data configuration =
     add_identities configuration
       [(''Description'', JStr (description configuration)),
        (''Policies'', JList (map PolicyLink_to_dict (policies configuration))),
        (''Roles'', JList (map RoleLink_to_dict (roles configuration))),
        (''Local'', JBool (local configuration))]"

definition secret_id :: "Configuration \<Rightarrow> json" where
  "secret_id configuration =
     (case token configuration of None \<Rightarrow> JNull | Some t \<Rightarrow> JStr t)"

definition create_token_data :: "Configuration \<Rightarrow> error + dict" where
  "create_token_data configuration =
     add_identities configuration
       [(''AccessorID'', JStr (cfg_id configuration)),
        (''Description'', JStr (description configuration)),
        (''SecretID'', secret_id configuration),
        (''Policies'', JList (map PolicyLink_to_dict (policies configuration))),
        (''Roles'', JList (map RoleLink_to_dict (roles configuration))),
        (''Local'', JBool (local configuration))]"

text \<open>
  The expression assigned to \<^verbatim>\<open>changed\<close> in \<^verbatim>\<open>update_token\<close>. Python's \<^verbatim>\<open>or\<close> stops
  at the first operand that is true, so the operands after it are not evaluated and
  their lookups cannot raise.
\<close>

definition differs :: "(error + json) \<Rightarrow> (error + json) \<Rightarrow> (error + bool) \<Rightarrow> error + bool" where
  "differs a b rest =
     (case a of
        Inl e \<Rightarrow> Inl e
      | Inr x \<Rightarrow>
          (case b of
             Inl e \<Rightarrow> Inl e
           | Inr y \<Rightarrow> if \<not> py_eq x y then Inr True else rest))"

definition token_changed :: "dict \<Rightarrow> json \<Rightarrow> error + bool" where
  "token_changed tok resulting_token =
     differs (subscript (JObj tok) ''Description'') (subscript resulting_token ''Description'')
    (differs (subscript (JObj tok) ''Local'') (subscript resulting_token ''Local'')
    (differs (get_default (JObj tok) ''Policies'') (get_default resulting_token ''Policies'')
    (differs (get_default (JObj tok) ''Roles'') (get_default resulting_token ''Roles'')
    (differs (get_default (JObj tok) ''ServiceIdentities'')
             (get_default resulting_token ''ServiceIdentities'')
    (differs (get_default (JObj tok) ''NodeIdentities'')
             (get_default resulting_token ''NodeIdentities'')
       (Inr False))))))"

definition update_token ::
  "transport \<Rightarrow> dict \<Rightarrow> Configuration \<Rightarrow> request list \<Rightarrow> Output io" where
  "update_token T tok configuration log =
     (case subscript (JObj tok) ''AccessorID'' of
        Inl e \<Rightarrow> (Inl e, log)
      | Inr accessor \<Rightarrow>
          (case update_token_data configuration of
             Inl e \<Rightarrow> (Inl e, log)
           | Inr data \<Rightarrow>
               (case checked_call T
                       (consul_request configuration PUT (acl_token_of accessor)
                          (Some (JObj data))) log of
                  (Inl e, log') \<Rightarrow> (Inl e, log')
                | (Inr resp, log') \<Rightarrow>
                    (case response_json resp of
                       Inl e \<Rightarrow> (Inl e, log')
                     | Inr resulting_token \<Rightarrow>
                         (case token_changed tok resulting_token of
                            Inl e \<Rightarrow> (Inl e, log')
                          | Inr c \<Rightarrow>
                              (Inr \<lparr>changed = c, operation = ''update'',
                                    out_token = Some resulting_token\<rparr>, log'))))))"

definition create_token ::
  "transport \<Rightarrow> Configuration \<Rightarrow> request list \<Rightarrow> Output io" where
  "create_token T configuration log =
     (case create_token_data configuration of
        Inl e \<Rightarrow> (Inl e, log)
      | Inr data \<Rightarrow>
          (case checked_call T
                  (consul_request configuration PUT acl_token (Some (JObj data))) log of
             (Inl e, log') \<Rightarrow> (Inl e, log')
           | (Inr resp, log') \<Rightarrow>
               (case response_json resp of
                  Inl e \<Rightarrow> (Inl e, log')
                | Inr resulting_token \<Rightarrow>
                    (Inr \<lparr>changed = True, operation = ''create'',
                          out_token = Some resulting_token\<rparr>, log'))))"

subsection \<open>remove_token, set_token\<close>

definition remove_token ::
  "transport \<Rightarrow> Configuration \<Rightarrow> request list \<Rightarrow> Output io" where
  "remove_token T configuration log =
     (case get_tokens T configuration log of
        (Inl e, log1) \<Rightarrow> (Inl e, log1)
      | (Inr tokens, log1) \<Rightarrow>
          (case index_get tokens (JStr (cfg_id configuration)) of
             Some entry \<Rightarrow>
               (case subscript entry ''AccessorID'' of
                  Inl e \<Rightarrow> (Inl e, log1)
                | Inr token_id \<Rightarrow>
                    (case checked_call T
                            (consul_request configuration DELETE (acl_token_of token_id) None)
                            log1 of
                       (Inl e, log2) \<Rightarrow> (Inl e, log2)
                     | (Inr resp, log2) \<Rightarrow>
                         (Inr \<lparr>changed = True, operation = ''remove'', out_token = None\<rparr>,
                          log2)))
           | None \<Rightarrow>
               (Inr \<lparr>changed = False, operation = ''remove'', out_token = None\<rparr>, log1)))"

definition set_token ::
  "transport \<Rightarrow> Configuration \<Rightarrow> request list \<Rightarrow> Output io" where
  "set_token T configuration log =
     (case get_tokens T configuration log of
        (Inl e, log1) \<Rightarrow> (Inl e, log1)
      | (Inr tokens, log1) \<Rightarrow>
          (case index_get tokens (JStr (cfg_id configuration)) of
             Some index_token_object \<Rightarrow>
               (case subscript index_token_object ''AccessorID'' of
                  Inl e \<Rightarrow> (Inl e, log1)
                | Inr token_id \<Rightarrow>
                    (case get_token T token_id configuration log1 of
                       (Inl e, log2) \<Rightarrow> (Inl e, log2)
                     | (Inr rest_token_object, log2) \<Rightarrow>
                         (case dict_copy index_token_object of
                            Inl e \<Rightarrow> (Inl e, log2)
                          | Inr tok0 \<Rightarrow>
                              (case dict_update tok0 rest_token_object of
                                 Inl e \<Rightarrow> (Inl e, log2)
                               | Inr tok \<Rightarrow> update_token T tok configuration log2))))
           | None \<Rightarrow> create_token T configuration log1))"

subsection \<open>main\<close>

text \<open>
  What \<^verbatim>\<open>main\<close> ends with: \<^verbatim>\<open>module.exit_json\<close> with the return values,
  \<^verbatim>\<open>module.fail_json\<close> with a message, or an exception nothing catches.
\<close>

datatype exit = exit_json Output | fail_json string | uncaught error

definition connection_failure :: "Configuration \<Rightarrow> error \<Rightarrow> exit" where
  "connection_failure configuration e =
     (case e of
        ConnectionError m \<Rightarrow>
          fail_json (''Could not connect to consul agent at '' @ host configuration @ '':'' @
                     str_int (port configuration) @ '', error was '' @ m)
      | _ \<Rightarrow> uncaught e)"

definition main :: "bool \<Rightarrow> transport \<Rightarrow> params \<Rightarrow> exit \<times> request list" where
  "main has_requests T p =
     (if \<not> has_requests
      then (fail_json ''requests required for this module. See https://pypi.org/project/requests/'', [])
      else
        (case Configuration_init p of
           Inl (ValueError m) \<Rightarrow> (fail_json (''Configuration error: '' @ m), [])
         | Inl e \<Rightarrow> (uncaught e, [])
         | Inr configuration \<Rightarrow>
             (case get_consul_version T configuration [] of
                (Inl e, log1) \<Rightarrow> (connection_failure configuration e, log1)
              | (Inr v, log1) \<Rightarrow>
                  (let configuration' = configuration\<lparr>version := Some v\<rparr> in
                   (case (if state configuration' = ''present''
                          then set_token T configuration' log1
                          else remove_token T configuration' log1) of
                      (Inl e, log2) \<Rightarrow> (connection_failure configuration' e, log2)
                    | (Inr output, log2) \<Rightarrow> (exit_json output, log2))))))"

section \<open>Example inputs\<close>

text \<open>
  The desired state of the examples: the token \<open>ID-1\<close> with the policy named \<open>p1\<close>,
  one service identity and one node identity.
\<close>

definition example_params :: params where
  "example_params =
     \<lparr>p_mgmt_token = Some ''secret'', p_host = ''localhost'', p_port = 8500,
      p_scheme = ''http'', p_validate_certs = True, p_id = ''ID-1'',
      p_description = ''example'', p_roles = [],
      p_policies = [JObj [(''name'', JStr ''p1'')]],
      p_service_identities =
        [JObj [(''name'', JStr ''web''), (''datacenters'', JList [JStr ''dc1''])]],
      p_node_identities =
        [JObj [(''name'', JStr ''node-1''), (''datacenter'', JStr ''dc2'')]],
      p_local = False, p_token = None, p_state = ''present''\<rparr>"

text \<open>The configuration built from it, once \<^verbatim>\<open>main\<close> has set the version \<open>v\<close>.\<close>

definition example_configuration :: "ConsulVersion \<Rightarrow> Configuration" where
  "example_configuration v =
     \<lparr>management_token = Some ''secret'', host = ''localhost'', port = 8500,
      scheme = ''http'', validate_certs = True, cfg_id = ''ID-1'',
      description = ''example'', token = None, roles = [],
      policies = [\<lparr>pl_id = JNull, pl_name = JStr ''p1''\<rparr>],
      service_identities =
        [\<lparr>si_name = JStr ''web'', si_datacenters = JList [JStr ''dc1'']\<rparr>],
      node_identities = [\<lparr>ni_name = JStr ''node-1'', ni_datacenter = JStr ''dc2''\<rparr>],
      local = False, state = ''present'', version = Some v\<rparr>"

text \<open>
  An agent that reports the version \<open>ver\<close>, lists \<open>listing\<close>, returns \<open>full\<close> for a
  single token and answers every \<^verbatim>\<open>PUT\<close> with \<open>result\<close>, all with status 200.
\<close>

definition ok_response :: "json \<Rightarrow> response" where
  "ok_response j = \<lparr>status_code = 200, content = [], json_of = Some j\<rparr>"

definition example_agent :: "string \<Rightarrow> json \<Rightarrow> json \<Rightarrow> json \<Rightarrow> transport" where
  "example_agent ver listing full result log r =
     (case req_method r of
        GET \<Rightarrow>
          (case req_endpoint r of
             agent_self \<Rightarrow>
               Inr (ok_response (JObj [(''Config'', JObj [(''Version'', JStr ver)])]))
           | acl_tokens \<Rightarrow> Inr (ok_response listing)
           | _ \<Rightarrow> Inr (ok_response full))
      | PUT \<Rightarrow> Inr (ok_response result)
      | DELETE \<Rightarrow> Inr (ok_response (JBool True)))"

text \<open>
  A token as the agent stores it, and as the agent returns it after an update that
  changed nothing but the bookkeeping fields.
\<close>

definition example_stored_token :: dict where
  "example_stored_token =
     [(''AccessorID'', JStr ''ID-1''), (''SecretID'', JStr ''s3cr3t''),
      (''Description'', JStr ''example''),
      (''Policies'', JList [JObj [(''ID'', JStr ''8bcfa038''), (''Name'', JStr ''p1'')]]),
      (''Local'', JBool False), (''CreateIndex'', JInt 29), (''ModifyIndex'', JInt 29),
      (''Hash'', JStr ''h1'')]"

definition example_updated_token :: dict where
  "example_updated_token =
     [(''AccessorID'', JStr ''ID-1''), (''SecretID'', JStr ''s3cr3t''),
      (''Description'', JStr ''example''),
      (''Policies'', JList [JObj [(''Name'', JStr ''p1''), (''ID'', JStr ''8bcfa038'')]]),
      (''Local'', JBool False), (''CreateIndex'', JInt 29), (''ModifyIndex'', JInt 31),
      (''Hash'', JStr ''h2'')]"

section \<open>Basic facts\<close>

lemma checked_call_eq:
  "checked_call T r log =
     ((case T log r of
         Inl e \<Rightarrow> Inl e
       | Inr resp \<Rightarrow>
           if 400 \<le> status_code resp \<and> status_code resp < 600
           then Inl (RequestError (status_code resp) (content resp))
           else Inr resp), log @ [r])"
  by (simp add: checked_call_def requests_call_def handle_consul_response_error_def
      split: sum.splits)

lemma snd_get_tokens:
  "snd (get_tokens T cfg log) = log @ [consul_request cfg GET acl_tokens None]"
  by (simp add: get_tokens_def checked_call_eq split: sum.splits)

lemma snd_get_token:
  "snd (get_token T i cfg log) = log @ [consul_request cfg GET (acl_token_of i) None]"
  by (simp add: get_token_def checked_call_eq split: sum.splits)

lemma version_literals:
  "ConsulVersion_init (JStr ''1.5.0'') = Inr \<lparr>major = ''1'', minor = ''5'', patch = ''0''\<rparr>"
  "ConsulVersion_init (JStr ''1.8.0'') = Inr \<lparr>major = ''1'', minor = ''8'', patch = ''0''\<rparr>"
  by (simp_all add: ConsulVersion_init_def)

lemmas py_int_defs = py_int_def py_strip_def is_space_def is_digit_def digit_val_def

lemma py_int_literals:
  "py_int ''150'' = Some 150" "py_int ''180'' = Some 180"
  by (simp_all add: py_int_defs)

lemma version_at_least_eq:
  "version cfg = Some v \<Longrightarrow>
   version_at_least cfg ''1.5.0'' =
     ConsulVersion_ge v \<lparr>major = ''1'', minor = ''5'', patch = ''0''\<rparr>"
  "version cfg = Some v \<Longrightarrow>
   version_at_least cfg ''1.8.0'' =
     ConsulVersion_ge v \<lparr>major = ''1'', minor = ''8'', patch = ''0''\<rparr>"
  by (simp_all add: version_at_least_def version_literals)

lemma ConsulVersion_ge_literal:
  "ConsulVersion_ge v \<lparr>major = ''1'', minor = ''5'', patch = ''0''\<rparr> =
     (case version_int v of None \<Rightarrow> Inl InvalidLiteral | Some n \<Rightarrow> Inr (150 \<le> n))"
  "ConsulVersion_ge v \<lparr>major = ''1'', minor = ''8'', patch = ''0''\<rparr> =
     (case version_int v of None \<Rightarrow> Inl InvalidLiteral | Some n \<Rightarrow> Inr (180 \<le> n))"
  by (simp_all add: ConsulVersion_ge_def version_int_def py_int_literals split: option.splits)

lemma snd_create_token:
  "snd (create_token T cfg log) =
     (case create_token_data cfg of
        Inl e \<Rightarrow> log
      | Inr data \<Rightarrow> log @ [consul_request cfg PUT acl_token (Some (JObj data))])"
  by (simp add: create_token_def checked_call_eq split: sum.splits)

lemma snd_update_token:
  "snd (update_token T tok cfg log) =
     (case subscript (JObj tok) ''AccessorID'' of
        Inl e \<Rightarrow> log
      | Inr a \<Rightarrow>
          (case update_token_data cfg of
             Inl e \<Rightarrow> log
           | Inr data \<Rightarrow> log @ [consul_request cfg PUT (acl_token_of a) (Some (JObj data))]))"
  by (simp add: update_token_def checked_call_eq split: sum.splits)

lemma add_identities_eq:
  assumes "version cfg = Some v"
  shows "add_identities cfg d =
     (case version_int v of
        None \<Rightarrow> Inl InvalidLiteral
      | Some n \<Rightarrow>
          Inr ((if 180 \<le> n
                then AList.update ''NodeIdentities''
                       (JList (map NodeIdentity_to_dict (node_identities cfg)))
                else (\<lambda>x. x))
               ((if 150 \<le> n
                 then AList.update ''ServiceIdentities''
                        (JList (map ServiceIdentity_to_dict (service_identities cfg)))
                 else (\<lambda>x. x)) d)))"
  using assms
  by (simp add: add_identities_def version_at_least_eq ConsulVersion_ge_literal Let_def
      split: option.splits)

lemma add_identities_gate:
  assumes "version cfg = Some v" and "add_identities cfg d = Inr data"
    and "map_of d ''ServiceIdentities'' = None" and "map_of d ''NodeIdentities'' = None"
  shows "map_of data ''ServiceIdentities'' =
           (if ConsulVersion_ge v \<lparr>major = ''1'', minor = ''5'', patch = ''0''\<rparr> = Inr True
            then Some (JList (map ServiceIdentity_to_dict (service_identities cfg)))
            else None)"
    and "map_of data ''NodeIdentities'' =
           (if ConsulVersion_ge v \<lparr>major = ''1'', minor = ''8'', patch = ''0''\<rparr> = Inr True
            then Some (JList (map NodeIdentity_to_dict (node_identities cfg)))
            else None)"
    and "k \<noteq> ''ServiceIdentities'' \<Longrightarrow> k \<noteq> ''NodeIdentities'' \<Longrightarrow> map_of data k = map_of d k"
  using assms
  by (auto simp: add_identities_eq ConsulVersion_ge_literal update_conv'
      split: option.splits if_splits)

section \<open>The version comparison\<close>

text \<open>
  Claim C6. For two versions built from dotted strings, \<^verbatim>\<open>>=\<close> and \<^verbatim>\<open><=\<close> compare
  the integers that \<^verbatim>\<open>int\<close> reads from the concatenations
  \<^verbatim>\<open>major + minor + patch\<close> of the two operands, whenever both concatenations are
  integer literals. For \<^verbatim>\<open>"1.10.0"\<close> against \<^verbatim>\<open>"1.9.0"\<close> the integers are 1100 and 190,
  so \<^verbatim>\<open>>=\<close> holds and \<^verbatim>\<open><=\<close> does not.
\<close>

theorem ConsulVersion_compare_concatenation:
  assumes "ConsulVersion_init (JStr s) = Inr a"
    and "ConsulVersion_init (JStr t) = Inr b"
    and "py_int (major a @ minor a @ patch a) = Some x"
    and "py_int (major b @ minor b @ patch b) = Some y"
  shows "ConsulVersion_ge a b = Inr (x \<ge> y) \<and> ConsulVersion_le a b = Inr (x \<le> y)"
  using assms by (simp add: ConsulVersion_ge_def ConsulVersion_le_def version_int_def)

theorem ConsulVersion_compare_concatenation_witness:
  "ConsulVersion_init (JStr ''1.10.0'') = Inr \<lparr>major = ''1'', minor = ''10'', patch = ''0''\<rparr> \<and>
   ConsulVersion_init (JStr ''1.9.0'') = Inr \<lparr>major = ''1'', minor = ''9'', patch = ''0''\<rparr> \<and>
   py_int ''1100'' = Some 1100 \<and> py_int ''190'' = Some 190 \<and>
   ConsulVersion_ge \<lparr>major = ''1'', minor = ''10'', patch = ''0''\<rparr>
                    \<lparr>major = ''1'', minor = ''9'', patch = ''0''\<rparr> = Inr True \<and>
   ConsulVersion_le \<lparr>major = ''1'', minor = ''10'', patch = ''0''\<rparr>
                    \<lparr>major = ''1'', minor = ''9'', patch = ''0''\<rparr> = Inr False"
proof -
  have a: "ConsulVersion_init (JStr ''1.10.0'') = Inr \<lparr>major = ''1'', minor = ''10'', patch = ''0''\<rparr>"
    by (simp add: ConsulVersion_init_def)
  have b: "ConsulVersion_init (JStr ''1.9.0'') = Inr \<lparr>major = ''1'', minor = ''9'', patch = ''0''\<rparr>"
    by (simp add: ConsulVersion_init_def)
  have x: "py_int (major \<lparr>major = ''1'', minor = ''10'', patch = ''0''\<rparr> @
                   minor \<lparr>major = ''1'', minor = ''10'', patch = ''0''\<rparr> @
                   patch \<lparr>major = ''1'', minor = ''10'', patch = ''0''\<rparr>) = Some 1100"
    by (simp add: py_int_defs)
  have y: "py_int (major \<lparr>major = ''1'', minor = ''9'', patch = ''0''\<rparr> @
                   minor \<lparr>major = ''1'', minor = ''9'', patch = ''0''\<rparr> @
                   patch \<lparr>major = ''1'', minor = ''9'', patch = ''0''\<rparr>) = Some 190"
    by (simp add: py_int_defs)
  show ?thesis
    using ConsulVersion_compare_concatenation [OF a b x y] a b x y by simp
qed

text \<open>
  The comparison is not the comparison of the components: 1.9.10 is read as 1910 and
  1.10.0 as 1100.
\<close>

lemma ConsulVersion_ge_not_componentwise:
  "ConsulVersion_ge \<lparr>major = ''1'', minor = ''9'', patch = ''10''\<rparr>
                    \<lparr>major = ''1'', minor = ''10'', patch = ''0''\<rparr> = Inr True"
  by (simp add: ConsulVersion_ge_def version_int_def py_int_defs)

section \<open>The version gates of the request bodies\<close>

lemma example_versions:
  "version_int \<lparr>major = ''1'', minor = ''4'', patch = ''9''\<rparr> = Some 149"
  "version_int \<lparr>major = ''1'', minor = ''5'', patch = ''0''\<rparr> = Some 150"
  "version_int \<lparr>major = ''1'', minor = ''8'', patch = ''0''\<rparr> = Some 180"
  by (simp_all add: version_int_def py_int_defs)

lemma example_token_data:
  "create_token_data (example_configuration \<lparr>major = ''1'', minor = ''4'', patch = ''9''\<rparr>) =
     Inr [(''AccessorID'', JStr ''ID-1''), (''Description'', JStr ''example''),
          (''SecretID'', JNull),
          (''Policies'', JList [JObj [(''ID'', JNull), (''Name'', JStr ''p1'')]]),
          (''Roles'', JList []), (''Local'', JBool False)]"
  "update_token_data (example_configuration \<lparr>major = ''1'', minor = ''5'', patch = ''0''\<rparr>) =
     Inr [(''Description'', JStr ''example''),
          (''Policies'', JList [JObj [(''ID'', JNull), (''Name'', JStr ''p1'')]]),
          (''Roles'', JList []), (''Local'', JBool False),
          (''ServiceIdentities'',
           JList [JObj [(''ServiceName'', JStr ''web''),
                        (''Datacenters'', JList [JStr ''dc1''])]])]"
  "create_token_data (example_configuration \<lparr>major = ''1'', minor = ''8'', patch = ''0''\<rparr>) =
     Inr [(''AccessorID'', JStr ''ID-1''), (''Description'', JStr ''example''),
          (''SecretID'', JNull),
          (''Policies'', JList [JObj [(''ID'', JNull), (''Name'', JStr ''p1'')]]),
          (''Roles'', JList []), (''Local'', JBool False),
          (''ServiceIdentities'',
           JList [JObj [(''ServiceName'', JStr ''web''),
                        (''Datacenters'', JList [JStr ''dc1''])]]),
          (''NodeIdentities'',
           JList [JObj [(''NodeName'', JStr ''node-1''), (''Datacenter'', JStr ''dc2'')]])]"
  by (simp_all add: create_token_data_def update_token_data_def
      add_identities_eq [where v = "\<lparr>major = ''1'', minor = ''4'', patch = ''9''\<rparr>"]
      add_identities_eq [where v = "\<lparr>major = ''1'', minor = ''5'', patch = ''0''\<rparr>"]
      add_identities_eq [where v = "\<lparr>major = ''1'', minor = ''8'', patch = ''0''\<rparr>"]
      example_versions example_configuration_def secret_id_def PolicyLink_to_dict_def
      ServiceIdentity_to_dict_def NodeIdentity_to_dict_def)

text \<open>
  Claim C2. Every request that \<^verbatim>\<open>create_token\<close> or \<^verbatim>\<open>update_token\<close> issues has a
  JSON body in which the key \<open>ServiceIdentities\<close> is present exactly when the negotiated
  version compares \<^verbatim>\<open>>=\<close> to 1.5.0, and the key \<open>NodeIdentities\<close> exactly when it
  compares \<^verbatim>\<open>>=\<close> to 1.8.0; a key that is present holds the identities of the
  configuration, a key that is absent is not in the body at all. For 1.4.9 both keys are
  absent, for 1.5.0 only \<open>ServiceIdentities\<close> is present, for 1.8.0 both are.
\<close>

theorem version_gating:
  assumes "version cfg = Some v"
    and "snd (create_token T cfg log) = log @ rs \<or> snd (update_token T tok cfg log) = log @ rs"
    and "r \<in> set rs"
  shows "\<exists>data. req_json r = Some (JObj data) \<and>
     map_of data ''ServiceIdentities'' =
       (if ConsulVersion_ge v \<lparr>major = ''1'', minor = ''5'', patch = ''0''\<rparr> = Inr True
        then Some (JList (map ServiceIdentity_to_dict (service_identities cfg)))
        else None) \<and>
     map_of data ''NodeIdentities'' =
       (if ConsulVersion_ge v \<lparr>major = ''1'', minor = ''8'', patch = ''0''\<rparr> = Inr True
        then Some (JList (map NodeIdentity_to_dict (node_identities cfg)))
        else None)"
  using assms(2)
proof
  assume c: "snd (create_token T cfg log) = log @ rs"
  show ?thesis
  proof (cases "create_token_data cfg")
    case (Inl e)
    with c assms(3) show ?thesis by (simp add: snd_create_token)
  next
    case (Inr data)
    with c assms(3) have r: "r = consul_request cfg PUT acl_token (Some (JObj data))"
      by (auto simp: snd_create_token)
    from Inr have a: "add_identities cfg
       [(''AccessorID'', JStr (cfg_id cfg)),
        (''Description'', JStr (description cfg)),
        (''SecretID'', secret_id cfg),
        (''Policies'', JList (map PolicyLink_to_dict (policies cfg))),
        (''Roles'', JList (map RoleLink_to_dict (roles cfg))),
        (''Local'', JBool (local cfg))] = Inr data"
      by (simp add: create_token_data_def)
    show ?thesis
      using add_identities_gate(1,2) [OF assms(1) a] r
      by (simp add: consul_request_def)
  qed
next
  assume u: "snd (update_token T tok cfg log) = log @ rs"
  show ?thesis
  proof (cases "subscript (JObj tok) ''AccessorID''")
    case (Inl e)
    with u assms(3) show ?thesis by (simp add: snd_update_token)
  next
    case acc: (Inr accessor)
    show ?thesis
    proof (cases "update_token_data cfg")
      case (Inl e)
      with u acc assms(3) show ?thesis by (simp add: snd_update_token)
    next
      case (Inr data)
      with u acc assms(3)
      have r: "r = consul_request cfg PUT (acl_token_of accessor) (Some (JObj data))"
        by (auto simp: snd_update_token)
      from Inr have a: "add_identities cfg
         [(''Description'', JStr (description cfg)),
          (''Policies'', JList (map PolicyLink_to_dict (policies cfg))),
          (''Roles'', JList (map RoleLink_to_dict (roles cfg))),
          (''Local'', JBool (local cfg))] = Inr data"
        by (simp add: update_token_data_def)
      show ?thesis
        using add_identities_gate(1,2) [OF assms(1) a] r
        by (simp add: consul_request_def)
    qed
  qed
qed

theorem version_gating_witness:
  "(\<exists>data. create_token_data
             (example_configuration \<lparr>major = ''1'', minor = ''4'', patch = ''9''\<rparr>) = Inr data \<and>
           map_of data ''ServiceIdentities'' = None \<and>
           map_of data ''NodeIdentities'' = None) \<and>
   (\<exists>data. update_token_data
             (example_configuration \<lparr>major = ''1'', minor = ''5'', patch = ''0''\<rparr>) = Inr data \<and>
           map_of data ''ServiceIdentities'' =
             Some (JList [JObj [(''ServiceName'', JStr ''web''),
                                (''Datacenters'', JList [JStr ''dc1''])]]) \<and>
           map_of data ''NodeIdentities'' = None) \<and>
   (\<exists>data. create_token_data
             (example_configuration \<lparr>major = ''1'', minor = ''8'', patch = ''0''\<rparr>) = Inr data \<and>
           map_of data ''ServiceIdentities'' =
             Some (JList [JObj [(''ServiceName'', JStr ''web''),
                                (''Datacenters'', JList [JStr ''dc1''])]]) \<and>
           map_of data ''NodeIdentities'' =
             Some (JList [JObj [(''NodeName'', JStr ''node-1''),
                                (''Datacenter'', JStr ''dc2'')]]))"
proof -
  let ?T = "example_agent ''1.4.9'' (JList []) JNull JNull"
  let ?tok = "[(''AccessorID'', JStr ''ID-1'')]"
  let ?c149 = "example_configuration \<lparr>major = ''1'', minor = ''4'', patch = ''9''\<rparr>"
  let ?c150 = "example_configuration \<lparr>major = ''1'', minor = ''5'', patch = ''0''\<rparr>"
  let ?c180 = "example_configuration \<lparr>major = ''1'', minor = ''8'', patch = ''0''\<rparr>"
  obtain d149 where d149: "create_token_data ?c149 = Inr d149"
    by (simp add: example_token_data)
  obtain d150 where d150: "update_token_data ?c150 = Inr d150"
    by (simp add: example_token_data)
  obtain d180 where d180: "create_token_data ?c180 = Inr d180"
    by (simp add: example_token_data)
  have v149: "version ?c149 = Some \<lparr>major = ''1'', minor = ''4'', patch = ''9''\<rparr>"
    and v150: "version ?c150 = Some \<lparr>major = ''1'', minor = ''5'', patch = ''0''\<rparr>"
    and v180: "version ?c180 = Some \<lparr>major = ''1'', minor = ''8'', patch = ''0''\<rparr>"
    by (simp_all add: example_configuration_def)
  have l149: "snd (create_token ?T ?c149 []) =
                [] @ [consul_request ?c149 PUT acl_token (Some (JObj d149))] \<or>
              snd (update_token ?T ?tok ?c149 []) =
                [] @ [consul_request ?c149 PUT acl_token (Some (JObj d149))]"
    by (simp add: snd_create_token d149)
  have l150: "snd (create_token ?T ?c150 []) =
                [] @ [consul_request ?c150 PUT (acl_token_of (JStr ''ID-1'')) (Some (JObj d150))] \<or>
              snd (update_token ?T ?tok ?c150 []) =
                [] @ [consul_request ?c150 PUT (acl_token_of (JStr ''ID-1'')) (Some (JObj d150))]"
    by (simp add: snd_update_token d150 subscript_def)
  have l180: "snd (create_token ?T ?c180 []) =
                [] @ [consul_request ?c180 PUT acl_token (Some (JObj d180))] \<or>
              snd (update_token ?T ?tok ?c180 []) =
                [] @ [consul_request ?c180 PUT acl_token (Some (JObj d180))]"
    by (simp add: snd_create_token d180)
  have g149: "map_of d149 ''ServiceIdentities'' = None \<and> map_of d149 ''NodeIdentities'' = None"
    using version_gating [OF v149 l149]
    by (simp add: consul_request_def ConsulVersion_ge_literal example_versions)
  have g150: "map_of d150 ''ServiceIdentities'' =
                Some (JList [JObj [(''ServiceName'', JStr ''web''),
                                   (''Datacenters'', JList [JStr ''dc1''])]]) \<and>
              map_of d150 ''NodeIdentities'' = None"
    using version_gating [OF v150 l150]
    by (simp add: consul_request_def ConsulVersion_ge_literal example_versions
        example_configuration_def ServiceIdentity_to_dict_def)
  have g180: "map_of d180 ''ServiceIdentities'' =
                Some (JList [JObj [(''ServiceName'', JStr ''web''),
                                   (''Datacenters'', JList [JStr ''dc1''])]]) \<and>
              map_of d180 ''NodeIdentities'' =
                Some (JList [JObj [(''NodeName'', JStr ''node-1''),
                                   (''Datacenter'', JStr ''dc2'')]])"
    using version_gating [OF v180 l180]
    by (simp add: consul_request_def ConsulVersion_ge_literal example_versions
        example_configuration_def ServiceIdentity_to_dict_def NodeIdentity_to_dict_def)
  show ?thesis
    using d149 d150 d180 g149 g150 g180 by simp
qed

section \<open>The create path\<close>

lemma create_token_eq:
  assumes "create_token_data cfg = Inr data"
  shows "create_token T cfg log =
     ((case T log (consul_request cfg PUT acl_token (Some (JObj data))) of
         Inl e \<Rightarrow> Inl e
       | Inr resp \<Rightarrow>
           if 400 \<le> status_code resp \<and> status_code resp < 600
           then Inl (RequestError (status_code resp) (content resp))
           else (case json_of resp of
                   None \<Rightarrow> Inl JSONDecodeError
                 | Some b \<Rightarrow> Inr \<lparr>changed = True, operation = ''create'', out_token = Some b\<rparr>)),
      log @ [consul_request cfg PUT acl_token (Some (JObj data))])"
  using assms
  by (simp add: create_token_def checked_call_eq response_json_def split: sum.splits option.splits)

lemma get_tokens_pair:
  "get_tokens T cfg log =
     (fst (get_tokens T cfg log), log @ [consul_request cfg GET acl_tokens None])"
  by (metis prod.collapse snd_get_tokens)

lemma set_token_absent:
  assumes "fst (get_tokens T cfg log) = Inr tokens"
    and "index_get tokens (JStr (cfg_id cfg)) = None"
  shows "set_token T cfg log =
           create_token T cfg (log @ [consul_request cfg GET acl_tokens None])"
proof -
  have "get_tokens T cfg log = (Inr tokens, log @ [consul_request cfg GET acl_tokens None])"
    using get_tokens_pair [of T cfg log] assms(1) by simp
  then show ?thesis using assms(2) by (simp add: set_token_def)
qed


lemma link_init_dict:
  "PolicyLink_init (JObj d) =
     Inr \<lparr>pl_id = (case map_of d ''id'' of None \<Rightarrow> JNull | Some i \<Rightarrow> i),
          pl_name = (case map_of d ''name'' of None \<Rightarrow> JNull | Some i \<Rightarrow> i)\<rparr>"
  "RoleLink_init (JObj d) =
     Inr \<lparr>rl_id = (case map_of d ''id'' of None \<Rightarrow> JNull | Some i \<Rightarrow> i),
          rl_name = (case map_of d ''name'' of None \<Rightarrow> JNull | Some i \<Rightarrow> i)\<rparr>"
  by (simp_all add: PolicyLink_init_def RoleLink_init_def get_default_def)


lemma example_get_tokens:
  "fst (get_tokens (example_agent ver (JList []) full result) cfg log) = Inr []"
  by (simp add: get_tokens_def checked_call_eq example_agent_def consul_request_def
      ok_response_def response_json_def py_iter_def)






section \<open>The token index\<close>

lemma py_eq_key_refl: "hashable a \<Longrightarrow> py_eq a a"
  by (cases a) (simp_all add: hashable_def)

lemma py_eq_key_sym: "hashable a \<Longrightarrow> hashable b \<Longrightarrow> py_eq a b \<Longrightarrow> py_eq b a"
  by (cases a; cases b) (auto simp: hashable_def split: if_splits)

lemma py_eq_key_trans:
  "hashable a \<Longrightarrow> hashable b \<Longrightarrow> hashable c \<Longrightarrow> py_eq a b \<Longrightarrow> py_eq b c \<Longrightarrow> py_eq a c"
  by (cases a; cases b; cases c) (auto simp: hashable_def split: if_splits)

lemma py_eq_JStr: "py_eq (JStr s) a \<longleftrightarrow> a = JStr s" "py_eq a (JStr s) \<longleftrightarrow> a = JStr s"
  by (cases a; auto)+

lemma index_get_put:
  assumes "\<forall>(k', v') \<in> set acc. hashable k'" and "hashable a" and "hashable k"
  shows "index_get (index_put a t acc) k = (if py_eq k a then Some t else index_get acc k)"
  using assms(1)
proof (induction acc)
  case Nil
  then show ?case by simp
next
  case (Cons p acc)
  obtain k' v' where p: "p = (k', v')" by (cases p)
  from Cons.prems p have hk': "hashable k'" and rest: "\<forall>(k', v') \<in> set acc. hashable k'"
    by auto
  note IH = Cons.IH [OF rest]
  show ?case
  proof (cases "py_eq a k'")
    case True
    show ?thesis
    proof (cases "py_eq k a")
      case ka: True
      then have "py_eq k k'"
        using py_eq_key_trans [OF assms(3) assms(2) hk'] True by blast
      with True ka show ?thesis by (simp add: p)
    next
      case ka: False
      have "\<not> py_eq k k'"
      proof
        assume kk': "py_eq k k'"
        have "py_eq k' a" using py_eq_key_sym [OF assms(2) hk' True] .
        then have "py_eq k a" using py_eq_key_trans [OF assms(3) hk' assms(2) kk'] by blast
        with ka show False by simp
      qed
      with True ka show ?thesis by (simp add: p)
    qed
  next
    case False
    show ?thesis
    proof (cases "py_eq k k'")
      case kk': True
      have "\<not> py_eq k a"
      proof
        assume ka: "py_eq k a"
        have "py_eq a k" using py_eq_key_sym [OF assms(3) assms(2) ka] .
        then have "py_eq a k'" using py_eq_key_trans [OF assms(2) assms(3) hk' _ kk'] by blast
        with False show False by simp
      qed
      with False kk' show ?thesis by (simp add: p)
    next
      case kk': False
      with False show ?thesis by (simp add: p IH)
    qed
  qed
qed

lemma set_index_put:
  "(k, v) \<in> set (index_put a t acc) \<Longrightarrow>
     (k, v) \<in> set acc \<or> (v = t \<and> (k = a \<or> (py_eq a k \<and> k \<in> fst ` set acc)))"
  by (induction acc) (auto split: if_splits)

lemma map_tokens_by_id_lookup:
  assumes "\<forall>t \<in> set ts. \<exists>a. subscript t ''AccessorID'' = Inr a \<and> hashable a"
    and "\<forall>(k', v') \<in> set acc. hashable k'"
    and "hashable k"
  shows "\<exists>idx. map_tokens_by_id ts acc = Inr idx \<and>
           (\<forall>(k', v') \<in> set idx. hashable k') \<and>
           index_get idx k =
             (case filter (listed_as k) ts of [] \<Rightarrow> index_get acc k | fs \<Rightarrow> Some (last fs))"
  using assms(1,2)
proof (induction ts arbitrary: acc)
  case Nil
  then show ?case by simp
next
  case (Cons t ts)
  from Cons.prems(1) obtain a where a: "subscript t ''AccessorID'' = Inr a" "hashable a"
    by auto
  from Cons.prems(1) have rest: "\<forall>t \<in> set ts. \<exists>a. subscript t ''AccessorID'' = Inr a \<and> hashable a"
    by simp
  show ?case
  proof (cases "a = JNull")
    case True
    with a have nl: "\<not> listed_as k t" by (simp add: listed_as_def)
    from Cons.IH [OF rest Cons.prems(2)] True a nl show ?thesis by simp
  next
    case False
    have acc': "\<forall>(k', v') \<in> set (index_put a t acc). hashable k'"
      using set_index_put [of _ _ a t acc] Cons.prems(2) a(2) by fastforce
    from Cons.IH [OF rest acc'] obtain idx where idx:
      "map_tokens_by_id ts (index_put a t acc) = Inr idx"
      "\<forall>(k', v') \<in> set idx. hashable k'"
      "index_get idx k =
         (case filter (listed_as k) ts of
            [] \<Rightarrow> index_get (index_put a t acc) k
          | fs \<Rightarrow> Some (last fs))"
      by blast
    have la: "listed_as k t \<longleftrightarrow> py_eq k a"
      using a False by (simp add: listed_as_def)
    have m: "map_tokens_by_id (t # ts) acc = Inr idx"
      using a False idx(1) by simp
    have g: "index_get (index_put a t acc) k = (if py_eq k a then Some t else index_get acc k)"
      using index_get_put [OF Cons.prems(2) a(2) assms(3)] .
    show ?thesis
      using m idx(2) idx(3) g la
      by (auto split: list.splits)
  qed
qed

lemma map_tokens_by_id_entries:
  assumes "map_tokens_by_id ts acc = Inr idx"
    and "(k, t) \<in> set idx"
  shows "(k, t) \<in> set acc \<or>
         (t \<in> set ts \<and>
          (\<exists>a. subscript t ''AccessorID'' = Inr a \<and> a \<noteq> JNull \<and> hashable a \<and> py_eq a k))"
  using assms
proof (induction ts arbitrary: acc)
  case Nil
  then show ?case by simp
next
  case (Cons u ts)
  show ?case
  proof (cases "subscript u ''AccessorID''")
    case (Inl e)
    with Cons.prems show ?thesis by simp
  next
    case (Inr a)
    show ?thesis
    proof (cases "a = JNull")
      case True
      with Inr Cons.prems have "map_tokens_by_id ts acc = Inr idx" by simp
      from Cons.IH [OF this Cons.prems(2)] show ?thesis by auto
    next
      case False
      with Inr Cons.prems have h: "hashable a" and
        m: "map_tokens_by_id ts (index_put a u acc) = Inr idx"
        by (auto split: if_splits)
      from Cons.IH [OF m Cons.prems(2)]
      consider "(k, t) \<in> set (index_put a u acc)"
        | "t \<in> set ts \<and>
           (\<exists>a. subscript t ''AccessorID'' = Inr a \<and> a \<noteq> JNull \<and> hashable a \<and> py_eq a k)"
        by blast
      then show ?thesis
      proof cases
        case 1
        with set_index_put [of k t a u acc]
        have "(k, t) \<in> set acc \<or> (t = u \<and> py_eq a k)"
          using py_eq_key_refl [OF h] by auto
        with Inr False h show ?thesis by auto
      next
        case 2
        then show ?thesis by auto
      qed
    qed
  qed
qed

lemma index_get_Some:
  "index_get idx k = Some t \<Longrightarrow> \<exists>k'. (k', t) \<in> set idx \<and> py_eq k k'"
  by (induction idx) (auto split: if_splits)

lemma get_tokens_built:
  assumes "fst (get_tokens T cfg log) = Inr tokens"
  shows "\<exists>ts. map_tokens_by_id ts [] = Inr tokens"
  using assms
  by (auto simp: get_tokens_def checked_call_eq split: sum.splits if_splits)

lemma get_tokens_entry:
  assumes "fst (get_tokens T cfg log) = Inr tokens"
    and "index_get tokens (JStr s) = Some entry"
  shows "subscript entry ''AccessorID'' = Inr (JStr s)"
proof -
  from get_tokens_built [OF assms(1)] obtain ts where ts: "map_tokens_by_id ts [] = Inr tokens"
    by blast
  from index_get_Some [OF assms(2)] obtain k' where k': "(k', entry) \<in> set tokens" "py_eq (JStr s) k'"
    by blast
  from k'(2) have "k' = JStr s" by (simp add: py_eq_JStr)
  with map_tokens_by_id_entries [OF ts k'(1)] show ?thesis
    by (auto simp: py_eq_JStr)
qed

lemma map_tokens_by_id_keyless:
  assumes "\<forall>t \<in> set pre. \<exists>a. subscript t ''AccessorID'' = Inr a \<and> hashable a"
    and "map_of d ''AccessorID'' = None"
  shows "map_tokens_by_id (pre @ JObj d # post) acc = Inl KeyError"
  using assms(1)
proof (induction pre arbitrary: acc)
  case Nil
  from assms(2) show ?case by (simp add: subscript_def)
next
  case (Cons t pre)
  then obtain a where a: "subscript t ''AccessorID'' = Inr a" "hashable a" by auto
  from Cons have "\<And>acc. map_tokens_by_id (pre @ JObj d # post) acc = Inl KeyError" by simp
  with a show ?case by simp
qed

lemma map_tokens_by_id_fails:
  assumes "t \<in> set ts" and "subscript t ''AccessorID'' = Inl e0"
  shows "\<exists>e. map_tokens_by_id ts acc = Inl e"
  using assms(1)
proof (induction ts arbitrary: acc)
  case Nil
  then show ?case by simp
next
  case (Cons u ts)
  show ?case
  proof (cases "u = t")
    case True
    with assms(2) show ?thesis by simp
  next
    case False
    with Cons.prems have "t \<in> set ts" by simp
    from Cons.IH [OF this] show ?thesis by (auto split: sum.splits)
  qed
qed

text \<open>
  Claim C7, amended. Let the listing response be a list. When its elements are all dicts
  with the key \<^verbatim>\<open>AccessorID\<close>, holding \<^verbatim>\<open>None\<close>, a string, a number or a boolean,
  \<^verbatim>\<open>get_tokens\<close> returns a dict in which a key maps to the last listed token whose
  \<^verbatim>\<open>AccessorID\<close> equals it, and every value is a listed token whose \<^verbatim>\<open>AccessorID\<close> is
  not \<^verbatim>\<open>None\<close>: the tokens whose accessor identity is null are left out. When some
  element is a dict without the key \<^verbatim>\<open>AccessorID\<close>, \<^verbatim>\<open>get_tokens\<close> fails; it fails with
  \<^verbatim>\<open>KeyError\<close> when all the elements before that one are of the kind above.
\<close>

theorem get_tokens_index:
  assumes "T log (consul_request cfg GET acl_tokens None) = Inr resp"
    and "\<not> (400 \<le> status_code resp \<and> status_code resp < 600)"
    and "json_of resp = Some (JList ts)"
  shows "((\<forall>t \<in> set ts. \<exists>a. subscript t ''AccessorID'' = Inr a \<and> hashable a) \<longrightarrow>
          (\<exists>idx.
             get_tokens T cfg log = (Inr idx, log @ [consul_request cfg GET acl_tokens None]) \<and>
             (\<forall>k. hashable k \<longrightarrow>
                index_get idx k =
                  (case filter (listed_as k) ts of [] \<Rightarrow> None | fs \<Rightarrow> Some (last fs))) \<and>
             (\<forall>(k, t) \<in> set idx. t \<in> set ts \<and> subscript t ''AccessorID'' \<noteq> Inr JNull))) \<and>
         (\<forall>pre d post.
            ts = pre @ JObj d # post \<and> map_of d ''AccessorID'' = None \<and>
            (\<forall>t \<in> set pre. \<exists>a. subscript t ''AccessorID'' = Inr a \<and> hashable a) \<longrightarrow>
            get_tokens T cfg log =
              (Inl KeyError, log @ [consul_request cfg GET acl_tokens None])) \<and>
         ((\<exists>t \<in> set ts. \<exists>d. t = JObj d \<and> map_of d ''AccessorID'' = None) \<longrightarrow>
          (\<exists>e. get_tokens T cfg log =
                 (Inl e, log @ [consul_request cfg GET acl_tokens None])))"
proof -
  have g: "get_tokens T cfg log =
             (map_tokens_by_id ts [], log @ [consul_request cfg GET acl_tokens None])"
    using assms by (auto simp: get_tokens_def checked_call_eq response_json_def py_iter_def)
  have p1: "\<exists>idx.
             get_tokens T cfg log = (Inr idx, log @ [consul_request cfg GET acl_tokens None]) \<and>
             (\<forall>k. hashable k \<longrightarrow>
                index_get idx k =
                  (case filter (listed_as k) ts of [] \<Rightarrow> None | fs \<Rightarrow> Some (last fs))) \<and>
             (\<forall>(k, t) \<in> set idx. t \<in> set ts \<and> subscript t ''AccessorID'' \<noteq> Inr JNull)"
    if all: "\<forall>t \<in> set ts. \<exists>a. subscript t ''AccessorID'' = Inr a \<and> hashable a"
  proof -
    have e: "\<forall>(k', v') \<in> set ([] :: token_index). hashable k'" by simp
    from map_tokens_by_id_lookup [OF all e, of JNull]
    obtain idx where idx: "map_tokens_by_id ts [] = Inr idx"
      by (auto simp: hashable_def)
    have l: "index_get idx k =
               (case filter (listed_as k) ts of [] \<Rightarrow> None | fs \<Rightarrow> Some (last fs))"
      if "hashable k" for k
      using map_tokens_by_id_lookup [OF all e that] idx by (auto split: list.splits)
    have n: "t \<in> set ts \<and> subscript t ''AccessorID'' \<noteq> Inr JNull"
      if "(k, t) \<in> set idx" for k t
      using map_tokens_by_id_entries [OF idx that] by auto
    show ?thesis
      using g idx l n by (intro exI [of _ idx]) auto
  qed
  have p2: "get_tokens T cfg log =
              (Inl KeyError, log @ [consul_request cfg GET acl_tokens None])"
    if "ts = pre @ JObj d # post \<and> map_of d ''AccessorID'' = None \<and>
        (\<forall>t \<in> set pre. \<exists>a. subscript t ''AccessorID'' = Inr a \<and> hashable a)"
    for pre d post
    using that g map_tokens_by_id_keyless [of pre d post "[]"] by simp
  have p3: "\<exists>e. get_tokens T cfg log =
                 (Inl e, log @ [consul_request cfg GET acl_tokens None])"
    if "\<exists>t \<in> set ts. \<exists>d. t = JObj d \<and> map_of d ''AccessorID'' = None"
  proof -
    from that obtain t d where t: "t \<in> set ts" "t = JObj d" "map_of d ''AccessorID'' = None"
      by blast
    then have "subscript t ''AccessorID'' = Inl KeyError" by (simp add: subscript_def)
    from map_tokens_by_id_fails [OF t(1) this, of "[]"] g show ?thesis by auto
  qed
  show ?thesis
    using p1 p2 p3 by blast
qed

theorem get_tokens_index_witness:
  "(\<exists>idx.
     get_tokens
       (example_agent ''1.8.0''
          (JList [JObj [(''AccessorID'', JNull), (''Description'', JStr ''anonymous'')],
                  JObj [(''AccessorID'', JStr ''ID-1''), (''Local'', JBool False)]])
          JNull JNull)
       (example_configuration \<lparr>major = ''1'', minor = ''8'', patch = ''0''\<rparr>) [] =
       (Inr idx,
        [consul_request (example_configuration \<lparr>major = ''1'', minor = ''8'', patch = ''0''\<rparr>)
           GET acl_tokens None]) \<and>
     index_get idx (JStr ''ID-1'') =
       Some (JObj [(''AccessorID'', JStr ''ID-1''), (''Local'', JBool False)]) \<and>
     index_get idx (JStr ''ID-2'') = None \<and>
     length idx = 1) \<and>
   get_tokens
     (example_agent ''1.8.0''
        (JList [JObj [(''AccessorID'', JNull), (''Description'', JStr ''anonymous'')],
                JObj [(''Description'', JStr ''no accessor'')],
                JObj [(''AccessorID'', JStr ''ID-1''), (''Local'', JBool False)]])
        JNull JNull)
     (example_configuration \<lparr>major = ''1'', minor = ''8'', patch = ''0''\<rparr>) [] =
     (Inl KeyError,
      [consul_request (example_configuration \<lparr>major = ''1'', minor = ''8'', patch = ''0''\<rparr>)
         GET acl_tokens None])"
proof -
  let ?ts = "[JObj [(''AccessorID'', JNull), (''Description'', JStr ''anonymous'')],
              JObj [(''AccessorID'', JStr ''ID-1''), (''Local'', JBool False)]]"
  let ?T = "example_agent ''1.8.0'' (JList ?ts) JNull JNull"
  let ?cfg = "example_configuration \<lparr>major = ''1'', minor = ''8'', patch = ''0''\<rparr>"
  have h1: "?T [] (consul_request ?cfg GET acl_tokens None) = Inr (ok_response (JList ?ts))"
    by (simp add: example_agent_def consul_request_def)
  have h2: "\<not> (400 \<le> status_code (ok_response (JList ?ts)) \<and>
               status_code (ok_response (JList ?ts)) < 600)"
    by (simp add: ok_response_def)
  have h3: "json_of (ok_response (JList ?ts)) = Some (JList ?ts)"
    by (simp add: ok_response_def)
  have h4: "\<forall>t \<in> set ?ts. \<exists>a. subscript t ''AccessorID'' = Inr a \<and> hashable a"
    by (simp add: subscript_def hashable_def)
  from get_tokens_index [where T = ?T and log = "[]" and cfg = ?cfg, OF h1 h2 h3,
      THEN conjunct1, THEN mp, OF h4]
  obtain idx where idx:
    "get_tokens ?T ?cfg [] = (Inr idx, [] @ [consul_request ?cfg GET acl_tokens None])"
    "\<forall>k. hashable k \<longrightarrow>
        index_get idx k =
          (case filter (listed_as k) ?ts of [] \<Rightarrow> None | fs \<Rightarrow> Some (last fs))"
    by blast
  have i1: "index_get idx (JStr ''ID-1'') =
              Some (JObj [(''AccessorID'', JStr ''ID-1''), (''Local'', JBool False)])"
    using idx(2) [rule_format, of "JStr ''ID-1''"]
    by (simp add: hashable_def listed_as_def subscript_def)
  have i2: "index_get idx (JStr ''ID-2'') = None"
    using idx(2) [rule_format, of "JStr ''ID-2''"]
    by (simp add: hashable_def listed_as_def subscript_def)
  have "idx = [(JStr ''ID-1'', JObj [(''AccessorID'', JStr ''ID-1''), (''Local'', JBool False)])]"
    using idx(1)
    by (simp add: get_tokens_def checked_call_eq example_agent_def consul_request_def
        ok_response_def response_json_def py_iter_def subscript_def hashable_def)
  then have i3: "length idx = 1" by simp
  have w1: "\<exists>idx.
     get_tokens ?T ?cfg [] = (Inr idx, [consul_request ?cfg GET acl_tokens None]) \<and>
     index_get idx (JStr ''ID-1'') =
       Some (JObj [(''AccessorID'', JStr ''ID-1''), (''Local'', JBool False)]) \<and>
     index_get idx (JStr ''ID-2'') = None \<and>
     length idx = 1"
    using idx(1) i1 i2 i3 by (intro exI [of _ idx]) simp
  let ?pre = "[JObj [(''AccessorID'', JNull), (''Description'', JStr ''anonymous'')]]"
  let ?d = "[(''Description'', JStr ''no accessor'')]"
  let ?post = "[JObj [(''AccessorID'', JStr ''ID-1''), (''Local'', JBool False)]]"
  let ?us = "?pre @ JObj ?d # ?post"
  let ?U = "example_agent ''1.8.0'' (JList ?us) JNull JNull"
  have u1: "?U [] (consul_request ?cfg GET acl_tokens None) = Inr (ok_response (JList ?us))"
    by (simp add: example_agent_def consul_request_def)
  have u2: "\<not> (400 \<le> status_code (ok_response (JList ?us)) \<and>
               status_code (ok_response (JList ?us)) < 600)"
    by (simp add: ok_response_def)
  have u3: "json_of (ok_response (JList ?us)) = Some (JList ?us)"
    by (simp add: ok_response_def)
  have u4: "?us = ?pre @ JObj ?d # ?post \<and> map_of ?d ''AccessorID'' = None \<and>
            (\<forall>t \<in> set ?pre. \<exists>a. subscript t ''AccessorID'' = Inr a \<and> hashable a)"
    by (simp add: subscript_def hashable_def)
  have w2: "get_tokens ?U ?cfg [] = (Inl KeyError, [consul_request ?cfg GET acl_tokens None])"
    using get_tokens_index [where T = ?U and log = "[]" and cfg = ?cfg, OF u1 u2 u3,
        THEN conjunct2, THEN conjunct1, rule_format, OF u4]
    by simp
  show ?thesis
    using w1 w2 by simp
qed

text \<open>
  Claim C7 as stated fails for an element that has no key \<^verbatim>\<open>AccessorID\<close> at all:
  \<^verbatim>\<open>token['AccessorID']\<close> raises \<^verbatim>\<open>KeyError\<close>, and the listing fails.
\<close>

theorem get_tokens_missing_accessor_counterexample:
  "get_tokens
     (example_agent ''1.8.0''
        (JList [JObj [(''Description'', JStr ''anonymous'')],
                JObj [(''AccessorID'', JStr ''ID-1''), (''Local'', JBool False)]])
        JNull JNull)
     (example_configuration \<lparr>major = ''1'', minor = ''8'', patch = ''0''\<rparr>) [] =
     (Inl KeyError,
      [consul_request (example_configuration \<lparr>major = ''1'', minor = ''8'', patch = ''0''\<rparr>)
         GET acl_tokens None])"
  by (simp add: get_tokens_def checked_call_eq example_agent_def consul_request_def
      ok_response_def response_json_def py_iter_def subscript_def)

section \<open>The remove path\<close>




section \<open>The update path\<close>

lemma update_token_eq:
  assumes "subscript (JObj tok) ''AccessorID'' = Inr a"
    and "update_token_data cfg = Inr data"
    and "T log (consul_request cfg PUT (acl_token_of a) (Some (JObj data))) = Inr resp"
    and "\<not> (400 \<le> status_code resp \<and> status_code resp < 600)"
    and "json_of resp = Some res"
  shows "update_token T tok cfg log =
     ((case token_changed tok res of
         Inl e \<Rightarrow> Inl e
       | Inr c \<Rightarrow> Inr \<lparr>changed = c, operation = ''update'', out_token = Some res\<rparr>),
      log @ [consul_request cfg PUT (acl_token_of a) (Some (JObj data))])"
  using assms
  by (auto simp: update_token_def checked_call_eq response_json_def split: sum.splits)

lemma update_token_result:
  assumes "update_token T tok cfg log = (Inr out, log')"
  shows "\<exists>res. out_token out = Some res \<and> operation out = ''update'' \<and>
               token_changed tok res = Inr (changed out)"
  using assms
  by (auto simp: update_token_def checked_call_eq response_json_def
      split: sum.splits option.splits if_splits)

lemma token_changed_Description_missing:
  "map_of tok ''Description'' = None \<Longrightarrow> token_changed tok res = Inl KeyError"
  "map_of tok ''Description'' = Some d1 \<Longrightarrow> map_of resd ''Description'' = None \<Longrightarrow>
     token_changed tok (JObj resd) = Inl KeyError"
  by (simp_all add: token_changed_def differs_def subscript_def)

lemma token_changed_Description_differs:
  "map_of tok ''Description'' = Some d1 \<Longrightarrow> map_of resd ''Description'' = Some d2 \<Longrightarrow>
     \<not> py_eq d1 d2 \<Longrightarrow> token_changed tok (JObj resd) = Inr True"
  by (simp add: token_changed_def differs_def subscript_def)

lemma token_changed_Local_missing:
  "map_of tok ''Description'' = Some d1 \<Longrightarrow> map_of resd ''Description'' = Some d2 \<Longrightarrow>
     py_eq d1 d2 \<Longrightarrow> map_of tok ''Local'' = None \<or> map_of resd ''Local'' = None \<Longrightarrow>
     token_changed tok (JObj resd) = Inl KeyError"
  by (auto simp: token_changed_def differs_def subscript_def split: option.splits)

lemma token_changed_both_present:
  "map_of tok ''Description'' = Some d1 \<Longrightarrow> map_of resd ''Description'' = Some d2 \<Longrightarrow>
     map_of tok ''Local'' = Some l1 \<Longrightarrow> map_of resd ''Local'' = Some l2 \<Longrightarrow>
     token_changed tok (JObj resd) =
       Inr (\<not> py_eq d1 d2 \<or> \<not> py_eq l1 l2 \<or>
            \<not> py_eq (dict_get tok ''Policies'') (dict_get resd ''Policies'') \<or>
            \<not> py_eq (dict_get tok ''Roles'') (dict_get resd ''Roles'') \<or>
            \<not> py_eq (dict_get tok ''ServiceIdentities'') (dict_get resd ''ServiceIdentities'') \<or>
            \<not> py_eq (dict_get tok ''NodeIdentities'') (dict_get resd ''NodeIdentities''))"
  by (simp add: token_changed_def differs_def subscript_def get_default_def dict_get_def)

lemma token_changed_Inr:
  assumes "token_changed tok res = Inr c"
  shows "\<exists>resd d1 d2. res = JObj resd \<and>
           map_of tok ''Description'' = Some d1 \<and> map_of resd ''Description'' = Some d2 \<and>
           (c \<longleftrightarrow>
              \<not> py_eq d1 d2 \<or>
              (\<exists>l1 l2. map_of tok ''Local'' = Some l1 \<and> map_of resd ''Local'' = Some l2 \<and>
                       \<not> py_eq l1 l2) \<or>
              \<not> py_eq (dict_get tok ''Policies'') (dict_get resd ''Policies'') \<or>
              \<not> py_eq (dict_get tok ''Roles'') (dict_get resd ''Roles'') \<or>
              \<not> py_eq (dict_get tok ''ServiceIdentities'') (dict_get resd ''ServiceIdentities'') \<or>
              \<not> py_eq (dict_get tok ''NodeIdentities'') (dict_get resd ''NodeIdentities''))"
proof (cases "map_of tok ''Description''")
  case None
  with assms show ?thesis by (simp add: token_changed_Description_missing)
next
  case d1: (Some d1)
  have "\<exists>resd. res = JObj resd"
    using assms d1 by (cases res) (simp_all add: token_changed_def differs_def subscript_def)
  then obtain resd where res: "res = JObj resd" by blast
  show ?thesis
  proof (cases "map_of resd ''Description''")
    case None
    with assms d1 res show ?thesis by (simp add: token_changed_Description_missing)
  next
    case d2: (Some d2)
    show ?thesis
    proof (cases "py_eq d1 d2")
      case False
      with assms d1 d2 res have "c" by (simp add: token_changed_Description_differs)
      with False d1 d2 res show ?thesis by simp
    next
      case True
      show ?thesis
      proof (cases "map_of tok ''Local'' = None \<or> map_of resd ''Local'' = None")
        case m: True
        from token_changed_Local_missing [OF d1 d2 True m] assms res show ?thesis by simp
      next
        case False
        then obtain l1 l2 where l: "map_of tok ''Local'' = Some l1" "map_of resd ''Local'' = Some l2"
          by auto
        from token_changed_both_present [OF d1 d2 l] assms res True d1 d2 l
        show ?thesis by auto
      qed
    qed
  qed
qed

lemma example_update_token_data:
  "update_token_data (example_configuration \<lparr>major = ''1'', minor = ''4'', patch = ''9''\<rparr>) =
     Inr [(''Description'', JStr ''example''),
          (''Policies'', JList [JObj [(''ID'', JNull), (''Name'', JStr ''p1'')]]),
          (''Roles'', JList []), (''Local'', JBool False)]"
  by (simp add: update_token_data_def
      add_identities_eq [where v = "\<lparr>major = ''1'', minor = ''4'', patch = ''9''\<rparr>"]
      example_versions example_configuration_def PolicyLink_to_dict_def)

lemma example_update_run:
  "update_token (example_agent ''1.4.9'' (JList []) JNull (JObj example_updated_token))
     example_stored_token
     (example_configuration \<lparr>major = ''1'', minor = ''4'', patch = ''9''\<rparr>) [] =
   (Inr \<lparr>changed = False, operation = ''update'',
         out_token = Some (JObj example_updated_token)\<rparr>,
    [consul_request (example_configuration \<lparr>major = ''1'', minor = ''4'', patch = ''9''\<rparr>)
       PUT (acl_token_of (JStr ''ID-1''))
       (Some (JObj [(''Description'', JStr ''example''),
                    (''Policies'', JList [JObj [(''ID'', JNull), (''Name'', JStr ''p1'')]]),
                    (''Roles'', JList []), (''Local'', JBool False)]))])"
proof -
  let ?cfg = "example_configuration \<lparr>major = ''1'', minor = ''4'', patch = ''9''\<rparr>"
  let ?T = "example_agent ''1.4.9'' (JList []) JNull (JObj example_updated_token)"
  let ?data = "[(''Description'', JStr ''example''),
                (''Policies'', JList [JObj [(''ID'', JNull), (''Name'', JStr ''p1'')]]),
                (''Roles'', JList []), (''Local'', JBool False)]"
  have a: "subscript (JObj example_stored_token) ''AccessorID'' = Inr (JStr ''ID-1'')"
    by (simp add: subscript_def example_stored_token_def)
  have d: "update_token_data ?cfg = Inr ?data"
    by (rule example_update_token_data)
  have t: "?T [] (consul_request ?cfg PUT (acl_token_of (JStr ''ID-1'')) (Some (JObj ?data))) =
             Inr (ok_response (JObj example_updated_token))"
    by (simp add: example_agent_def consul_request_def)
  have s: "\<not> (400 \<le> status_code (ok_response (JObj example_updated_token)) \<and>
              status_code (ok_response (JObj example_updated_token)) < 600)"
    by (simp add: ok_response_def)
  have j: "json_of (ok_response (JObj example_updated_token)) = Some (JObj example_updated_token)"
    by (simp add: ok_response_def)
  have c: "token_changed example_stored_token (JObj example_updated_token) = Inr False"
    by (simp add: token_changed_def differs_def subscript_def get_default_def
        example_stored_token_def example_updated_token_def)
  show ?thesis
    using update_token_eq [where T = ?T and log = "[]", OF a d t s j] by (simp add: c)
qed

lemma get_token_pair:
  "get_token T i cfg log =
     (fst (get_token T i cfg log), log @ [consul_request cfg GET (acl_token_of i) None])"
  by (metis prod.collapse snd_get_token)

lemma map_of_merge_full:
  "map_of (AList.merge idx full) k =
     (case map_of full k of None \<Rightarrow> map_of idx k | Some v \<Rightarrow> Some v)"
  by (simp add: merge_conv' map_add_def)

lemma update_token_Inr:
  assumes "update_token T tok cfg log = (Inr out, log')"
  shows "\<exists>a data resp res.
           subscript (JObj tok) ''AccessorID'' = Inr a \<and>
           update_token_data cfg = Inr data \<and>
           T log (consul_request cfg PUT (acl_token_of a) (Some (JObj data))) = Inr resp \<and>
           \<not> (400 \<le> status_code resp \<and> status_code resp < 600) \<and>
           json_of resp = Some res \<and>
           log' = log @ [consul_request cfg PUT (acl_token_of a) (Some (JObj data))] \<and>
           out_token out = Some res \<and> operation out = ''update'' \<and>
           token_changed tok res = Inr (changed out)"
  using assms
  by (auto simp: update_token_def checked_call_eq response_json_def
      split: sum.splits option.splits if_splits)

subsection \<open>The changed flag\<close>

text \<open>
  Claim C3. Whenever \<^verbatim>\<open>update_token\<close> returns an outcome, it has issued one \<^verbatim>\<open>PUT\<close>
  to the token's endpoint with the update body, the response to that request has a dict
  as its JSON body, the token of the outcome is that response body, and the changed flag
  is true exactly when one of the six fields differs between the token passed in (the
  merged view) and the response body: \<open>Description\<close> (present in both), \<open>Local\<close>
  (present in both and different), or \<open>Policies\<close>, \<open>Roles\<close>, \<open>ServiceIdentities\<close>,
  \<open>NodeIdentities\<close>, each read with \<^verbatim>\<open>get(key, None)\<close>. Conversely, when the \<^verbatim>\<open>PUT\<close>
  succeeds with a dict as body and \<open>Description\<close> and \<open>Local\<close> are present in both
  documents, an outcome is returned with that flag, whether the other four keys are
  present, null or absent: an absent key equals a null one. No other key occurs in the
  condition: in the example the modification index and the hash differ, \<open>Roles\<close> is
  absent on one side and null on the other, and the flag is false.
\<close>

theorem changed_iff_fields_differ:
  "(update_token T tok cfg log = (Inr out, log') \<longrightarrow>
      (\<exists>a data resp res d1 d2.
         subscript (JObj tok) ''AccessorID'' = Inr a \<and>
         update_token_data cfg = Inr data \<and>
         log' = log @ [consul_request cfg PUT (acl_token_of a) (Some (JObj data))] \<and>
         T log (consul_request cfg PUT (acl_token_of a) (Some (JObj data))) = Inr resp \<and>
         json_of resp = Some (JObj res) \<and>
         operation out = ''update'' \<and> out_token out = Some (JObj res) \<and>
         map_of tok ''Description'' = Some d1 \<and> map_of res ''Description'' = Some d2 \<and>
         (changed out \<longleftrightarrow>
            \<not> py_eq d1 d2 \<or>
            (\<exists>l1 l2. map_of tok ''Local'' = Some l1 \<and> map_of res ''Local'' = Some l2 \<and>
                     \<not> py_eq l1 l2) \<or>
            \<not> py_eq (dict_get tok ''Policies'') (dict_get res ''Policies'') \<or>
            \<not> py_eq (dict_get tok ''Roles'') (dict_get res ''Roles'') \<or>
            \<not> py_eq (dict_get tok ''ServiceIdentities'') (dict_get res ''ServiceIdentities'') \<or>
            \<not> py_eq (dict_get tok ''NodeIdentities'') (dict_get res ''NodeIdentities'')))) \<and>
   (\<forall>a data resp res d1 d2 l1 l2.
      subscript (JObj tok) ''AccessorID'' = Inr a \<and>
      update_token_data cfg = Inr data \<and>
      T log (consul_request cfg PUT (acl_token_of a) (Some (JObj data))) = Inr resp \<and>
      \<not> (400 \<le> status_code resp \<and> status_code resp < 600) \<and>
      json_of resp = Some (JObj res) \<and>
      map_of tok ''Description'' = Some d1 \<and> map_of res ''Description'' = Some d2 \<and>
      map_of tok ''Local'' = Some l1 \<and> map_of res ''Local'' = Some l2 \<longrightarrow>
      update_token T tok cfg log =
        (Inr \<lparr>changed =
                (\<not> py_eq d1 d2 \<or> \<not> py_eq l1 l2 \<or>
                 \<not> py_eq (dict_get tok ''Policies'') (dict_get res ''Policies'') \<or>
                 \<not> py_eq (dict_get tok ''Roles'') (dict_get res ''Roles'') \<or>
                 \<not> py_eq (dict_get tok ''ServiceIdentities'')
                          (dict_get res ''ServiceIdentities'') \<or>
                 \<not> py_eq (dict_get tok ''NodeIdentities'') (dict_get res ''NodeIdentities'')),
              operation = ''update'', out_token = Some (JObj res)\<rparr>,
         log @ [consul_request cfg PUT (acl_token_of a) (Some (JObj data))]))"
proof (intro conjI impI allI)
  assume run: "update_token T tok cfg log = (Inr out, log')"
  from update_token_Inr [OF run] obtain a data resp r where
    r: "subscript (JObj tok) ''AccessorID'' = Inr a"
       "update_token_data cfg = Inr data"
       "T log (consul_request cfg PUT (acl_token_of a) (Some (JObj data))) = Inr resp"
       "json_of resp = Some r"
       "log' = log @ [consul_request cfg PUT (acl_token_of a) (Some (JObj data))]"
       "out_token out = Some r" "operation out = ''update''"
       "token_changed tok r = Inr (changed out)"
    by blast
  from token_changed_Inr [OF r(8)] obtain res d1 d2 where
    c: "r = JObj res" "map_of tok ''Description'' = Some d1" "map_of res ''Description'' = Some d2"
       "changed out \<longleftrightarrow>
            \<not> py_eq d1 d2 \<or>
            (\<exists>l1 l2. map_of tok ''Local'' = Some l1 \<and> map_of res ''Local'' = Some l2 \<and>
                     \<not> py_eq l1 l2) \<or>
            \<not> py_eq (dict_get tok ''Policies'') (dict_get res ''Policies'') \<or>
            \<not> py_eq (dict_get tok ''Roles'') (dict_get res ''Roles'') \<or>
            \<not> py_eq (dict_get tok ''ServiceIdentities'') (dict_get res ''ServiceIdentities'') \<or>
            \<not> py_eq (dict_get tok ''NodeIdentities'') (dict_get res ''NodeIdentities'')"
    by blast
  show "\<exists>a data resp res d1 d2.
         subscript (JObj tok) ''AccessorID'' = Inr a \<and>
         update_token_data cfg = Inr data \<and>
         log' = log @ [consul_request cfg PUT (acl_token_of a) (Some (JObj data))] \<and>
         T log (consul_request cfg PUT (acl_token_of a) (Some (JObj data))) = Inr resp \<and>
         json_of resp = Some (JObj res) \<and>
         operation out = ''update'' \<and> out_token out = Some (JObj res) \<and>
         map_of tok ''Description'' = Some d1 \<and> map_of res ''Description'' = Some d2 \<and>
         (changed out \<longleftrightarrow>
            \<not> py_eq d1 d2 \<or>
            (\<exists>l1 l2. map_of tok ''Local'' = Some l1 \<and> map_of res ''Local'' = Some l2 \<and>
                     \<not> py_eq l1 l2) \<or>
            \<not> py_eq (dict_get tok ''Policies'') (dict_get res ''Policies'') \<or>
            \<not> py_eq (dict_get tok ''Roles'') (dict_get res ''Roles'') \<or>
            \<not> py_eq (dict_get tok ''ServiceIdentities'') (dict_get res ''ServiceIdentities'') \<or>
            \<not> py_eq (dict_get tok ''NodeIdentities'') (dict_get res ''NodeIdentities''))"
    apply (rule exI [of _ a], rule exI [of _ data], rule exI [of _ resp])
    apply (rule exI [of _ res], rule exI [of _ d1], rule exI [of _ d2])
    using r c by simp
next
  fix a data resp res d1 d2 l1 l2
  assume h: "subscript (JObj tok) ''AccessorID'' = Inr a \<and>
      update_token_data cfg = Inr data \<and>
      T log (consul_request cfg PUT (acl_token_of a) (Some (JObj data))) = Inr resp \<and>
      \<not> (400 \<le> status_code resp \<and> status_code resp < 600) \<and>
      json_of resp = Some (JObj res) \<and>
      map_of tok ''Description'' = Some d1 \<and> map_of res ''Description'' = Some d2 \<and>
      map_of tok ''Local'' = Some l1 \<and> map_of res ''Local'' = Some l2"
  then have a: "subscript (JObj tok) ''AccessorID'' = Inr a"
    and d: "update_token_data cfg = Inr data"
    and t: "T log (consul_request cfg PUT (acl_token_of a) (Some (JObj data))) = Inr resp"
    and s: "\<not> (400 \<le> status_code resp \<and> status_code resp < 600)"
    and j: "json_of resp = Some (JObj res)"
    and f: "map_of tok ''Description'' = Some d1" "map_of res ''Description'' = Some d2"
           "map_of tok ''Local'' = Some l1" "map_of res ''Local'' = Some l2"
    by simp_all
  show "update_token T tok cfg log =
        (Inr \<lparr>changed =
                (\<not> py_eq d1 d2 \<or> \<not> py_eq l1 l2 \<or>
                 \<not> py_eq (dict_get tok ''Policies'') (dict_get res ''Policies'') \<or>
                 \<not> py_eq (dict_get tok ''Roles'') (dict_get res ''Roles'') \<or>
                 \<not> py_eq (dict_get tok ''ServiceIdentities'')
                          (dict_get res ''ServiceIdentities'') \<or>
                 \<not> py_eq (dict_get tok ''NodeIdentities'') (dict_get res ''NodeIdentities'')),
              operation = ''update'', out_token = Some (JObj res)\<rparr>,
         log @ [consul_request cfg PUT (acl_token_of a) (Some (JObj data))])"
    using update_token_eq [where T = T and log = log, OF a d t s j]
      token_changed_both_present [OF f]
    by simp
qed

theorem changed_iff_fields_differ_witness:
  "(\<exists>a data resp res d1 d2.
      example_agent ''1.4.9'' (JList []) JNull (JObj example_updated_token) []
        (consul_request (example_configuration \<lparr>major = ''1'', minor = ''4'', patch = ''9''\<rparr>)
           PUT (acl_token_of a) (Some (JObj data))) = Inr resp \<and>
      json_of resp = Some (JObj res) \<and>
      out_token \<lparr>changed = False, operation = ''update'',
                 out_token = Some (JObj example_updated_token)\<rparr> = Some (JObj res) \<and>
      map_of res ''ModifyIndex'' = Some (JInt 31) \<and>
      map_of example_stored_token ''ModifyIndex'' = Some (JInt 29) \<and>
      map_of example_stored_token ''Description'' = Some d1 \<and>
      map_of res ''Description'' = Some d2 \<and>
      (changed \<lparr>changed = False, operation = ''update'',
                out_token = Some (JObj example_updated_token)\<rparr> \<longleftrightarrow>
         \<not> py_eq d1 d2 \<or>
         (\<exists>l1 l2. map_of example_stored_token ''Local'' = Some l1 \<and>
                  map_of res ''Local'' = Some l2 \<and> \<not> py_eq l1 l2) \<or>
         \<not> py_eq (dict_get example_stored_token ''Policies'') (dict_get res ''Policies'') \<or>
         \<not> py_eq (dict_get example_stored_token ''Roles'') (dict_get res ''Roles'') \<or>
         \<not> py_eq (dict_get example_stored_token ''ServiceIdentities'')
                  (dict_get res ''ServiceIdentities'') \<or>
         \<not> py_eq (dict_get example_stored_token ''NodeIdentities'')
                  (dict_get res ''NodeIdentities''))) \<and>
   map_of example_stored_token ''Roles'' = None \<and>
   update_token
     (example_agent ''1.4.9'' (JList []) JNull
        (JObj ((''Roles'', JNull) # example_updated_token)))
     example_stored_token
     (example_configuration \<lparr>major = ''1'', minor = ''4'', patch = ''9''\<rparr>) [] =
   (Inr \<lparr>changed = False, operation = ''update'',
         out_token = Some (JObj ((''Roles'', JNull) # example_updated_token))\<rparr>,
    [consul_request (example_configuration \<lparr>major = ''1'', minor = ''4'', patch = ''9''\<rparr>)
       PUT (acl_token_of (JStr ''ID-1''))
       (Some (JObj [(''Description'', JStr ''example''),
                    (''Policies'', JList [JObj [(''ID'', JNull), (''Name'', JStr ''p1'')]]),
                    (''Roles'', JList []), (''Local'', JBool False)]))])"
proof -
  let ?cfg = "example_configuration \<lparr>major = ''1'', minor = ''4'', patch = ''9''\<rparr>"
  let ?res = "(''Roles'', JNull) # example_updated_token"
  let ?T = "example_agent ''1.4.9'' (JList []) JNull (JObj ?res)"
  let ?data = "[(''Description'', JStr ''example''),
                (''Policies'', JList [JObj [(''ID'', JNull), (''Name'', JStr ''p1'')]]),
                (''Roles'', JList []), (''Local'', JBool False)]"
  have m: "map_of example_updated_token ''ModifyIndex'' = Some (JInt 31)"
    "map_of example_stored_token ''ModifyIndex'' = Some (JInt 29)"
    "map_of example_stored_token ''Roles'' = None"
    by (simp_all add: example_updated_token_def example_stored_token_def)
  have p1: "\<exists>a data resp res d1 d2.
      example_agent ''1.4.9'' (JList []) JNull (JObj example_updated_token) []
        (consul_request ?cfg PUT (acl_token_of a) (Some (JObj data))) = Inr resp \<and>
      json_of resp = Some (JObj res) \<and>
      out_token \<lparr>changed = False, operation = ''update'',
                 out_token = Some (JObj example_updated_token)\<rparr> = Some (JObj res) \<and>
      map_of res ''ModifyIndex'' = Some (JInt 31) \<and>
      map_of example_stored_token ''ModifyIndex'' = Some (JInt 29) \<and>
      map_of example_stored_token ''Description'' = Some d1 \<and>
      map_of res ''Description'' = Some d2 \<and>
      (changed \<lparr>changed = False, operation = ''update'',
                out_token = Some (JObj example_updated_token)\<rparr> \<longleftrightarrow>
         \<not> py_eq d1 d2 \<or>
         (\<exists>l1 l2. map_of example_stored_token ''Local'' = Some l1 \<and>
                  map_of res ''Local'' = Some l2 \<and> \<not> py_eq l1 l2) \<or>
         \<not> py_eq (dict_get example_stored_token ''Policies'') (dict_get res ''Policies'') \<or>
         \<not> py_eq (dict_get example_stored_token ''Roles'') (dict_get res ''Roles'') \<or>
         \<not> py_eq (dict_get example_stored_token ''ServiceIdentities'')
                  (dict_get res ''ServiceIdentities'') \<or>
         \<not> py_eq (dict_get example_stored_token ''NodeIdentities'')
                  (dict_get res ''NodeIdentities''))"
  proof -
    from changed_iff_fields_differ [THEN conjunct1, THEN mp, OF example_update_run]
    obtain a data resp res d1 d2 where
      o: "example_agent ''1.4.9'' (JList []) JNull (JObj example_updated_token) []
            (consul_request ?cfg PUT (acl_token_of a) (Some (JObj data))) = Inr resp"
         "json_of resp = Some (JObj res)"
         "out_token \<lparr>changed = False, operation = ''update'',
                     out_token = Some (JObj example_updated_token)\<rparr> = Some (JObj res)"
         "map_of example_stored_token ''Description'' = Some d1"
         "map_of res ''Description'' = Some d2"
         "changed \<lparr>changed = False, operation = ''update'',
                   out_token = Some (JObj example_updated_token)\<rparr> \<longleftrightarrow>
            \<not> py_eq d1 d2 \<or>
            (\<exists>l1 l2. map_of example_stored_token ''Local'' = Some l1 \<and>
                     map_of res ''Local'' = Some l2 \<and> \<not> py_eq l1 l2) \<or>
            \<not> py_eq (dict_get example_stored_token ''Policies'') (dict_get res ''Policies'') \<or>
            \<not> py_eq (dict_get example_stored_token ''Roles'') (dict_get res ''Roles'') \<or>
            \<not> py_eq (dict_get example_stored_token ''ServiceIdentities'')
                     (dict_get res ''ServiceIdentities'') \<or>
            \<not> py_eq (dict_get example_stored_token ''NodeIdentities'')
                     (dict_get res ''NodeIdentities'')"
      by blast
    from o(3) have res: "res = example_updated_token" by simp
    show ?thesis
      apply (rule exI [of _ a], rule exI [of _ data], rule exI [of _ resp])
      apply (rule exI [of _ res], rule exI [of _ d1], rule exI [of _ d2])
      using o m(1,2) unfolding res by (intro conjI) assumption+
  qed
  have a: "subscript (JObj example_stored_token) ''AccessorID'' = Inr (JStr ''ID-1'')"
    by (simp add: subscript_def example_stored_token_def)
  have d: "update_token_data ?cfg = Inr ?data"
    by (rule example_update_token_data)
  have t: "?T [] (consul_request ?cfg PUT (acl_token_of (JStr ''ID-1'')) (Some (JObj ?data))) =
             Inr (ok_response (JObj ?res))"
    by (simp add: example_agent_def consul_request_def)
  have s: "\<not> (400 \<le> status_code (ok_response (JObj ?res)) \<and>
              status_code (ok_response (JObj ?res)) < 600)"
    and j: "json_of (ok_response (JObj ?res)) = Some (JObj ?res)"
    by (simp_all add: ok_response_def)
  have f: "map_of example_stored_token ''Description'' = Some (JStr ''example'')"
    "map_of ?res ''Description'' = Some (JStr ''example'')"
    "map_of example_stored_token ''Local'' = Some (JBool False)"
    "map_of ?res ''Local'' = Some (JBool False)"
    by (simp_all add: example_updated_token_def example_stored_token_def)
  have g: "dict_get example_stored_token ''Policies'' =
             JList [JObj [(''ID'', JStr ''8bcfa038''), (''Name'', JStr ''p1'')]]"
    "dict_get ?res ''Policies'' =
             JList [JObj [(''Name'', JStr ''p1''), (''ID'', JStr ''8bcfa038'')]]"
    "dict_get example_stored_token ''Roles'' = JNull" "dict_get ?res ''Roles'' = JNull"
    "dict_get example_stored_token ''ServiceIdentities'' = JNull"
    "dict_get ?res ''ServiceIdentities'' = JNull"
    "dict_get example_stored_token ''NodeIdentities'' = JNull"
    "dict_get ?res ''NodeIdentities'' = JNull"
    by (simp_all add: dict_get_def example_updated_token_def example_stored_token_def)
  have p2: "update_token ?T example_stored_token ?cfg [] =
     (Inr \<lparr>changed = False, operation = ''update'', out_token = Some (JObj ?res)\<rparr>,
      [consul_request ?cfg PUT (acl_token_of (JStr ''ID-1'')) (Some (JObj ?data))])"
    using changed_iff_fields_differ [where T = ?T and tok = example_stored_token and cfg = ?cfg
        and log = "[]", THEN conjunct2, rule_format, OF conjI [OF a conjI [OF d conjI [OF t
        conjI [OF s conjI [OF j conjI [OF f(1) conjI [OF f(2) conjI [OF f(3) f(4)]]]]]]]]]
    by (simp add: g)
  show ?thesis
    using p1 m(3) p2 by simp
qed

subsection \<open>The merged view\<close>

text \<open>
  Claim C4. When the id is in the index and the single-token fetch returns a dict,
  \<^verbatim>\<open>set_token\<close> is \<^verbatim>\<open>update_token\<close> on a merged dict that, at every key, holds the
  value of the full record when the full record has the key and the value of the index
  entry otherwise; and the changed flag of any outcome is computed from that merged dict.
  In the example the index entry has no \<open>Description\<close> and another \<open>Local\<close> than the
  full record: the merged dict has the full record's values, and keeps the key only the
  index entry has.
\<close>

theorem merge_before_update:
  assumes "fst (get_tokens T cfg log) = Inr tokens"
    and "index_get tokens (JStr (cfg_id cfg)) = Some entry"
    and "fst (get_token T (JStr (cfg_id cfg)) cfg
                (log @ [consul_request cfg GET acl_tokens None])) = Inr (JObj full)"
  shows "\<exists>idx tok.
     entry = JObj idx \<and>
     (\<forall>k. map_of tok k = (case map_of full k of None \<Rightarrow> map_of idx k | Some v \<Rightarrow> Some v)) \<and>
     set_token T cfg log =
       update_token T tok cfg
         (log @ [consul_request cfg GET acl_tokens None,
                 consul_request cfg GET (acl_token_of (JStr (cfg_id cfg))) None]) \<and>
     (\<forall>out. fst (set_token T cfg log) = Inr out \<longrightarrow>
        (\<exists>res. out_token out = Some res \<and> token_changed tok res = Inr (changed out)))"
proof -
  let ?l1 = "log @ [consul_request cfg GET acl_tokens None]"
  let ?l2 = "log @ [consul_request cfg GET acl_tokens None,
                    consul_request cfg GET (acl_token_of (JStr (cfg_id cfg))) None]"
  have a: "subscript entry ''AccessorID'' = Inr (JStr (cfg_id cfg))"
    using get_tokens_entry [OF assms(1,2)] .
  then obtain idx where idx: "entry = JObj idx"
    by (cases entry) (simp_all add: subscript_def)
  have g: "get_tokens T cfg log = (Inr tokens, ?l1)"
    using get_tokens_pair [of T cfg log] assms(1) by simp
  have f: "get_token T (JStr (cfg_id cfg)) cfg ?l1 = (Inr (JObj full), ?l2)"
    using get_token_pair [of T "JStr (cfg_id cfg)" cfg ?l1] assms(3) by simp
  have s: "set_token T cfg log = update_token T (AList.merge idx full) cfg ?l2"
    using g assms(2) a f idx
    by (simp add: set_token_def dict_copy_def dict_update_def)
  have c: "\<exists>res. out_token out = Some res \<and>
                 token_changed (AList.merge idx full) res = Inr (changed out)"
    if "fst (set_token T cfg log) = Inr out" for out
  proof -
    from that s have "update_token T (AList.merge idx full) cfg ?l2 =
                        (Inr out, snd (update_token T (AList.merge idx full) cfg ?l2))"
      by (metis prod.collapse)
    from update_token_result [OF this] show ?thesis by blast
  qed
  show ?thesis
    using idx s c map_of_merge_full [of idx full]
    by (intro exI [of _ idx] exI [of _ "AList.merge idx full"]) simp
qed

theorem merge_before_update_witness:
  "\<exists>tok.
     map_of tok ''Description'' = Some (JStr ''example'') \<and>
     map_of tok ''Local'' = Some (JBool False) \<and>
     map_of tok ''Legacy'' = Some (JBool True) \<and>
     set_token
       (example_agent ''1.4.9''
          (JList [JObj [(''AccessorID'', JStr ''ID-1''), (''Local'', JBool True),
                        (''Legacy'', JBool True)]])
          (JObj example_stored_token) (JObj example_updated_token))
       (example_configuration \<lparr>major = ''1'', minor = ''4'', patch = ''9''\<rparr>) [] =
     update_token
       (example_agent ''1.4.9''
          (JList [JObj [(''AccessorID'', JStr ''ID-1''), (''Local'', JBool True),
                        (''Legacy'', JBool True)]])
          (JObj example_stored_token) (JObj example_updated_token))
       tok
       (example_configuration \<lparr>major = ''1'', minor = ''4'', patch = ''9''\<rparr>)
       [consul_request (example_configuration \<lparr>major = ''1'', minor = ''4'', patch = ''9''\<rparr>)
          GET acl_tokens None,
        consul_request (example_configuration \<lparr>major = ''1'', minor = ''4'', patch = ''9''\<rparr>)
          GET (acl_token_of (JStr ''ID-1'')) None]"
proof -
  let ?entry = "JObj [(''AccessorID'', JStr ''ID-1''), (''Local'', JBool True),
                      (''Legacy'', JBool True)]"
  let ?T = "example_agent ''1.4.9'' (JList [?entry])
              (JObj example_stored_token) (JObj example_updated_token)"
  let ?cfg = "example_configuration \<lparr>major = ''1'', minor = ''4'', patch = ''9''\<rparr>"
  have id: "cfg_id ?cfg = ''ID-1''"
    by (simp add: example_configuration_def)
  have h1: "fst (get_tokens ?T ?cfg []) = Inr [(JStr ''ID-1'', ?entry)]"
    by (simp add: get_tokens_def checked_call_eq example_agent_def consul_request_def
        ok_response_def response_json_def py_iter_def subscript_def hashable_def)
  have h2: "index_get [(JStr ''ID-1'', ?entry)] (JStr (cfg_id ?cfg)) = Some ?entry"
    by (simp add: id)
  have h3: "fst (get_token ?T (JStr (cfg_id ?cfg)) ?cfg
                   ([] @ [consul_request ?cfg GET acl_tokens None])) =
              Inr (JObj example_stored_token)"
    by (simp add: get_token_def checked_call_eq example_agent_def consul_request_def
        ok_response_def response_json_def)
  from merge_before_update [OF h1 h2 h3] obtain idx tok where m:
    "?entry = JObj idx"
    "\<forall>k. map_of tok k =
        (case map_of example_stored_token k of None \<Rightarrow> map_of idx k | Some v \<Rightarrow> Some v)"
    "set_token ?T ?cfg [] =
       update_token ?T tok ?cfg
         ([] @ [consul_request ?cfg GET acl_tokens None,
                consul_request ?cfg GET (acl_token_of (JStr (cfg_id ?cfg))) None])"
    by blast
  from m(1) have idx: "idx = [(''AccessorID'', JStr ''ID-1''), (''Local'', JBool True),
                              (''Legacy'', JBool True)]"
    by simp
  have t1: "map_of tok ''Description'' = Some (JStr ''example'')"
    and t2: "map_of tok ''Local'' = Some (JBool False)"
    and t3: "map_of tok ''Legacy'' = Some (JBool True)"
    using m(2) by (simp_all add: idx example_stored_token_def)
  show ?thesis
    using t1 t2 t3 m(3) by (intro exI [of _ tok]) (simp add: id)
qed

subsection \<open>Key lookups of the changed flag\<close>

text \<open>
  Claim C10, amended. After a successful \<^verbatim>\<open>PUT\<close> with a dict as response body: when
  either document lacks \<open>Description\<close> the update fails with \<^verbatim>\<open>KeyError\<close>; when both
  have it and the values are equal, a missing \<open>Local\<close> in either document fails with
  \<^verbatim>\<open>KeyError\<close>; when the descriptions differ, \<^verbatim>\<open>or\<close> stops there, \<open>Local\<close> is not
  read, and the outcome is changed whether or not \<open>Local\<close> is present; and with
  \<open>Description\<close> and \<open>Local\<close> present in both, an outcome is produced whatever
  other keys are missing.
\<close>

theorem update_key_lookup:
  assumes "subscript (JObj tok) ''AccessorID'' = Inr a"
    and "update_token_data cfg = Inr data"
    and "T log (consul_request cfg PUT (acl_token_of a) (Some (JObj data))) = Inr resp"
    and "\<not> (400 \<le> status_code resp \<and> status_code resp < 600)"
    and "json_of resp = Some (JObj res)"
  shows "(map_of tok ''Description'' = None \<or> map_of res ''Description'' = None \<longrightarrow>
            fst (update_token T tok cfg log) = Inl KeyError) \<and>
         (\<forall>d1 d2. map_of tok ''Description'' = Some d1 \<and> map_of res ''Description'' = Some d2 \<longrightarrow>
            (\<not> py_eq d1 d2 \<longrightarrow>
               fst (update_token T tok cfg log) =
                 Inr \<lparr>changed = True, operation = ''update'', out_token = Some (JObj res)\<rparr>) \<and>
            (py_eq d1 d2 \<and> (map_of tok ''Local'' = None \<or> map_of res ''Local'' = None) \<longrightarrow>
               fst (update_token T tok cfg log) = Inl KeyError) \<and>
            (py_eq d1 d2 \<and> map_of tok ''Local'' \<noteq> None \<and> map_of res ''Local'' \<noteq> None \<longrightarrow>
               (\<exists>c. fst (update_token T tok cfg log) =
                      Inr \<lparr>changed = c, operation = ''update'', out_token = Some (JObj res)\<rparr>)))"
proof -
  note u = update_token_eq [where T = T and log = log, OF assms]
  have m: "fst (update_token T tok cfg log) = Inl KeyError"
    if "map_of tok ''Description'' = None \<or> map_of res ''Description'' = None"
  proof (cases "map_of tok ''Description''")
    case None
    then show ?thesis by (simp add: u token_changed_Description_missing)
  next
    case (Some d1)
    with that have "map_of res ''Description'' = None" by simp
    from token_changed_Description_missing(2) [OF Some this] show ?thesis by (simp add: u)
  qed
  have d: "fst (update_token T tok cfg log) =
             Inr \<lparr>changed = True, operation = ''update'', out_token = Some (JObj res)\<rparr>"
    if "map_of tok ''Description'' = Some d1" "map_of res ''Description'' = Some d2"
       "\<not> py_eq d1 d2" for d1 d2
    using token_changed_Description_differs [OF that] by (simp add: u)
  have l: "fst (update_token T tok cfg log) = Inl KeyError"
    if "map_of tok ''Description'' = Some d1" "map_of res ''Description'' = Some d2"
       "py_eq d1 d2" "map_of tok ''Local'' = None \<or> map_of res ''Local'' = None" for d1 d2
    using token_changed_Local_missing [OF that] by (simp add: u)
  have p: "\<exists>c. fst (update_token T tok cfg log) =
                 Inr \<lparr>changed = c, operation = ''update'', out_token = Some (JObj res)\<rparr>"
    if "map_of tok ''Description'' = Some d1" "map_of res ''Description'' = Some d2"
       "map_of tok ''Local'' \<noteq> None" "map_of res ''Local'' \<noteq> None" for d1 d2
  proof -
    from that(3,4) obtain l1 l2 where "map_of tok ''Local'' = Some l1" "map_of res ''Local'' = Some l2"
      by auto
    from token_changed_both_present [OF that(1,2) this] show ?thesis by (simp add: u)
  qed
  show ?thesis
    using m d l p by blast
qed

theorem update_key_lookup_witness:
  "fst (update_token
          (example_agent ''1.4.9'' (JList []) JNull (JObj [(''AccessorID'', JStr ''ID-1'')]))
          example_stored_token
          (example_configuration \<lparr>major = ''1'', minor = ''4'', patch = ''9''\<rparr>) []) =
     Inl KeyError \<and>
   fst (update_token
          (example_agent ''1.4.9'' (JList []) JNull
             (JObj [(''AccessorID'', JStr ''ID-1''), (''Description'', JStr ''example'')]))
          example_stored_token
          (example_configuration \<lparr>major = ''1'', minor = ''4'', patch = ''9''\<rparr>) []) =
     Inl KeyError"
proof -
  let ?cfg = "example_configuration \<lparr>major = ''1'', minor = ''4'', patch = ''9''\<rparr>"
  let ?r1 = "[(''AccessorID'', JStr ''ID-1'')]"
  let ?r2 = "[(''AccessorID'', JStr ''ID-1''), (''Description'', JStr ''example'')]"
  let ?T1 = "example_agent ''1.4.9'' (JList []) JNull (JObj ?r1)"
  let ?T2 = "example_agent ''1.4.9'' (JList []) JNull (JObj ?r2)"
  let ?data = "[(''Description'', JStr ''example''),
                (''Policies'', JList [JObj [(''ID'', JNull), (''Name'', JStr ''p1'')]]),
                (''Roles'', JList []), (''Local'', JBool False)]"
  have a: "subscript (JObj example_stored_token) ''AccessorID'' = Inr (JStr ''ID-1'')"
    by (simp add: subscript_def example_stored_token_def)
  have d: "update_token_data ?cfg = Inr ?data"
    by (rule example_update_token_data)
  have t1: "?T1 [] (consul_request ?cfg PUT (acl_token_of (JStr ''ID-1'')) (Some (JObj ?data))) =
              Inr (ok_response (JObj ?r1))"
    and t2: "?T2 [] (consul_request ?cfg PUT (acl_token_of (JStr ''ID-1'')) (Some (JObj ?data))) =
              Inr (ok_response (JObj ?r2))"
    by (simp_all add: example_agent_def consul_request_def)
  have s: "\<not> (400 \<le> status_code (ok_response j) \<and> status_code (ok_response j) < 600)"
    and j: "json_of (ok_response j) = Some j" for j
    by (simp_all add: ok_response_def)
  have k1: "fst (update_token ?T1 example_stored_token ?cfg []) = Inl KeyError"
    using update_key_lookup [where T = ?T1 and log = "[]", OF a d t1 s j, THEN conjunct1]
    by simp
  have e: "map_of example_stored_token ''Description'' = Some (JStr ''example'') \<and>
           map_of ?r2 ''Description'' = Some (JStr ''example'')"
    by (simp add: example_stored_token_def)
  have k2: "fst (update_token ?T2 example_stored_token ?cfg []) = Inl KeyError"
    using update_key_lookup [where T = ?T2 and log = "[]", OF a d t2 s j, THEN conjunct2,
        rule_format, OF e, THEN conjunct2, THEN conjunct1]
    by simp
  show ?thesis
    using k1 k2 by simp
qed

text \<open>
  Claim C10 as stated fails: both documents lack \<open>Local\<close>, the descriptions differ, and
  the update produces an outcome.
\<close>

theorem update_without_Local_counterexample:
  "map_of [(''AccessorID'', JStr ''ID-1''), (''Description'', JStr ''old'')] ''Local'' = None \<and>
   map_of [(''AccessorID'', JStr ''ID-1''), (''Description'', JStr ''example'')] ''Local'' = None \<and>
   fst (update_token
          (example_agent ''1.4.9'' (JList []) JNull
             (JObj [(''AccessorID'', JStr ''ID-1''), (''Description'', JStr ''example'')]))
          [(''AccessorID'', JStr ''ID-1''), (''Description'', JStr ''old'')]
          (example_configuration \<lparr>major = ''1'', minor = ''4'', patch = ''9''\<rparr>) []) =
     Inr \<lparr>changed = True, operation = ''update'',
          out_token =
            Some (JObj [(''AccessorID'', JStr ''ID-1''), (''Description'', JStr ''example'')])\<rparr>"
proof -
  let ?cfg = "example_configuration \<lparr>major = ''1'', minor = ''4'', patch = ''9''\<rparr>"
  let ?tok = "[(''AccessorID'', JStr ''ID-1''), (''Description'', JStr ''old'')]"
  let ?res = "[(''AccessorID'', JStr ''ID-1''), (''Description'', JStr ''example'')]"
  let ?T = "example_agent ''1.4.9'' (JList []) JNull (JObj ?res)"
  let ?data = "[(''Description'', JStr ''example''),
                (''Policies'', JList [JObj [(''ID'', JNull), (''Name'', JStr ''p1'')]]),
                (''Roles'', JList []), (''Local'', JBool False)]"
  have a: "subscript (JObj ?tok) ''AccessorID'' = Inr (JStr ''ID-1'')"
    by (simp add: subscript_def)
  have d: "update_token_data ?cfg = Inr ?data"
    by (rule example_update_token_data)
  have t: "?T [] (consul_request ?cfg PUT (acl_token_of (JStr ''ID-1'')) (Some (JObj ?data))) =
             Inr (ok_response (JObj ?res))"
    by (simp add: example_agent_def consul_request_def)
  have s: "\<not> (400 \<le> status_code (ok_response (JObj ?res)) \<and>
              status_code (ok_response (JObj ?res)) < 600)"
    and j: "json_of (ok_response (JObj ?res)) = Some (JObj ?res)"
    by (simp_all add: ok_response_def)
  have c: "token_changed ?tok (JObj ?res) = Inr True"
    by (simp add: token_changed_def differs_def subscript_def)
  show ?thesis
    using update_token_eq [where T = ?T and log = "[]", OF a d t s j] by (simp add: c)
qed

section \<open>Validation of the desired state\<close>

lemma comprehension_Inr:
  "\<forall>x \<in> set xs. \<exists>y. f x = Inr y \<Longrightarrow> \<exists>ys. comprehension f xs = Inr ys"
  by (induction xs) auto

lemma comprehension_Inl:
  "comprehension f xs = Inl e \<Longrightarrow> \<exists>x \<in> set xs. f x = Inl e"
  by (induction xs) (auto split: sum.splits)

lemma comprehension_Inr_all:
  "comprehension f xs = Inr ys \<Longrightarrow> \<forall>x \<in> set xs. \<exists>y. f x = Inr y"
  by (induction xs arbitrary: ys) (auto split: sum.splits)

lemma ServiceIdentity_init_Inl:
  "ServiceIdentity_init x = Inl e \<Longrightarrow> e = ValueError service_identities_message"
  by (auto simp: ServiceIdentity_init_def split: json.splits option.splits)

lemma NodeIdentity_init_Inl:
  "NodeIdentity_init x = Inl e \<Longrightarrow> e = ValueError node_identities_message"
  by (auto simp: NodeIdentity_init_def split: json.splits option.splits)

lemma identity_without_name:
  assumes "\<forall>d. x = JObj d \<longrightarrow> map_of d ''name'' = None"
  shows "ServiceIdentity_init x = Inl (ValueError service_identities_message)"
    and "NodeIdentity_init x = Inl (ValueError node_identities_message)"
  using assms
  by (auto simp: ServiceIdentity_init_def NodeIdentity_init_def split: json.splits option.splits)

lemma links_of_dicts:
  assumes "\<forall>x \<in> set xs. \<exists>d. x = JObj d"
  shows "\<exists>rs. comprehension RoleLink_init xs = Inr rs"
    and "\<exists>ps. comprehension PolicyLink_init xs = Inr ps"
proof -
  have "\<forall>x \<in> set xs. \<exists>y. RoleLink_init x = Inr y"
    using assms by (auto simp: link_init_dict)
  then show "\<exists>rs. comprehension RoleLink_init xs = Inr rs"
    by (rule comprehension_Inr)
  have "\<forall>x \<in> set xs. \<exists>y. PolicyLink_init x = Inr y"
    using assms by (auto simp: link_init_dict)
  then show "\<exists>ps. comprehension PolicyLink_init xs = Inr ps"
    by (rule comprehension_Inr)
qed

lemma comprehension_fails:
  assumes "\<exists>x \<in> set xs. \<exists>e. f x = Inl e"
  shows "\<exists>e. comprehension f xs = Inl e"
proof (cases "comprehension f xs")
  case (Inl e)
  then show ?thesis by blast
next
  case (Inr ys)
  from comprehension_Inr_all [OF this] assms show ?thesis by auto
qed

text \<open>
  Claim C8. Let the elements of \<open>roles\<close> and \<open>policies\<close> be dicts, as the argument
  specification of the module declares them. When some element of \<open>service_identities\<close>
  or of \<open>node_identities\<close> is not a dict or is a dict without the key \<open>name\<close>, the
  constructor of the configuration raises the \<^verbatim>\<open>ValueError\<close> of the identity class,
  and \<^verbatim>\<open>main\<close> ends with \<^verbatim>\<open>fail_json\<close> and the message \<open>Configuration error: ...\<close>
  without having issued any request.
\<close>

theorem validation_before_requests:
  assumes "\<forall>x \<in> set (p_roles p). \<exists>d. x = JObj d"
    and "\<forall>x \<in> set (p_policies p). \<exists>d. x = JObj d"
    and "(\<exists>x \<in> set (p_service_identities p). \<forall>d. x = JObj d \<longrightarrow> map_of d ''name'' = None) \<or>
         (\<exists>x \<in> set (p_node_identities p). \<forall>d. x = JObj d \<longrightarrow> map_of d ''name'' = None)"
  shows "\<exists>m. (m = service_identities_message \<or> m = node_identities_message) \<and>
              Configuration_init p = Inl (ValueError m) \<and>
              main True T p = (fail_json (''Configuration error: '' @ m), [])"
proof -
  obtain rs where rs: "comprehension RoleLink_init (p_roles p) = Inr rs"
    using links_of_dicts(1) [OF assms(1)] by blast
  obtain ps where ps: "comprehension PolicyLink_init (p_policies p) = Inr ps"
    using links_of_dicts(2) [OF assms(2)] by blast
  have c: "\<exists>m. (m = service_identities_message \<or> m = node_identities_message) \<and>
               Configuration_init p = Inl (ValueError m)"
  proof (cases "comprehension ServiceIdentity_init (p_service_identities p)")
    case (Inl e)
    from comprehension_Inl [OF Inl] ServiceIdentity_init_Inl
    have "e = ValueError service_identities_message" by blast
    with Inl rs ps show ?thesis by (simp add: Configuration_init_def)
  next
    case (Inr ss)
    from comprehension_Inr_all [OF Inr] identity_without_name(1)
    have "\<not> (\<exists>x \<in> set (p_service_identities p). \<forall>d. x = JObj d \<longrightarrow> map_of d ''name'' = None)"
      by fastforce
    with assms(3) obtain x where x: "x \<in> set (p_node_identities p)"
      "\<forall>d. x = JObj d \<longrightarrow> map_of d ''name'' = None"
      by blast
    from identity_without_name(2) [OF x(2)] x(1)
    have "\<exists>x \<in> set (p_node_identities p). \<exists>e. NodeIdentity_init x = Inl e" by blast
    from comprehension_fails [OF this] obtain e where
      e: "comprehension NodeIdentity_init (p_node_identities p) = Inl e" by blast
    from comprehension_Inl [OF e] NodeIdentity_init_Inl
    have "e = ValueError node_identities_message" by blast
    with e Inr rs ps show ?thesis by (simp add: Configuration_init_def)
  qed
  then obtain m where m: "m = service_identities_message \<or> m = node_identities_message"
    "Configuration_init p = Inl (ValueError m)" by blast
  from m(2) have "main True T p = (fail_json (''Configuration error: '' @ m), [])"
    by (simp add: main_def)
  with m show ?thesis by blast
qed

theorem validation_before_requests_witness:
  "main True (example_agent ''1.8.0'' (JList []) JNull JNull)
     (example_params\<lparr>p_service_identities := [JObj [(''datacenters'', JList [JStr ''dc1''])]]\<rparr>) =
     (fail_json (''Configuration error: '' @ service_identities_message), []) \<and>
   main True (example_agent ''1.8.0'' (JList []) JNull JNull)
     (example_params\<lparr>p_node_identities := [JStr ''node-1'']\<rparr>) =
     (fail_json (''Configuration error: '' @ node_identities_message), [])"
proof -
  let ?T = "example_agent ''1.8.0'' (JList []) JNull JNull"
  let ?p1 = "example_params\<lparr>p_service_identities := [JObj [(''datacenters'', JList [JStr ''dc1''])]]\<rparr>"
  let ?p2 = "example_params\<lparr>p_node_identities := [JStr ''node-1'']\<rparr>"
  have r1: "\<forall>x \<in> set (p_roles ?p1). \<exists>d. x = JObj d"
    and q1: "\<forall>x \<in> set (p_policies ?p1). \<exists>d. x = JObj d"
    and r2: "\<forall>x \<in> set (p_roles ?p2). \<exists>d. x = JObj d"
    and q2: "\<forall>x \<in> set (p_policies ?p2). \<exists>d. x = JObj d"
    by (simp_all add: example_params_def)
  have b1: "(\<exists>x \<in> set (p_service_identities ?p1). \<forall>d. x = JObj d \<longrightarrow> map_of d ''name'' = None) \<or>
            (\<exists>x \<in> set (p_node_identities ?p1). \<forall>d. x = JObj d \<longrightarrow> map_of d ''name'' = None)"
    by (simp add: example_params_def)
  have b2: "(\<exists>x \<in> set (p_service_identities ?p2). \<forall>d. x = JObj d \<longrightarrow> map_of d ''name'' = None) \<or>
            (\<exists>x \<in> set (p_node_identities ?p2). \<forall>d. x = JObj d \<longrightarrow> map_of d ''name'' = None)"
    by (simp add: example_params_def)
  have c1: "Configuration_init ?p1 \<noteq> Inl (ValueError node_identities_message)"
    by (simp add: Configuration_init_def example_params_def link_init_dict
        ServiceIdentity_init_def node_identities_message_def service_identities_message_def)
  have c2: "Configuration_init ?p2 \<noteq> Inl (ValueError service_identities_message)"
    by (simp add: Configuration_init_def example_params_def link_init_dict
        ServiceIdentity_init_def NodeIdentity_init_def node_identities_message_def
        service_identities_message_def)
  from validation_before_requests [OF r1 q1 b1, of ?T] c1
  have m1: "main True ?T ?p1 =
              (fail_json (''Configuration error: '' @ service_identities_message), [])"
    by auto
  from validation_before_requests [OF r2 q2 b2, of ?T] c2
  have m2: "main True ?T ?p2 =
              (fail_json (''Configuration error: '' @ node_identities_message), [])"
    by auto
  show ?thesis using m1 m2 by simp
qed

section \<open>Links without id and name\<close>

text \<open>
  Claim C9 asks that a policy or role element with neither \<open>id\<close> nor \<open>name\<close> be
  rejected before any request. The module does not do so: for the desired state whose
  \<open>policies\<close> and \<open>roles\<close> are both the list of one empty dict, \<^verbatim>\<open>main\<close> builds the
  configuration, negotiates the version, lists the tokens and sends the creation request
  with \<open>Policies\<close> and \<open>Roles\<close> holding \<open>{ID: null, Name: null}\<close>.
\<close>

theorem empty_policy_link_passes:
  "main True (example_agent ''1.4.9'' (JList []) JNull (JObj [(''AccessorID'', JStr ''ID-1'')]))
     (example_params\<lparr>p_policies := [JObj []], p_roles := [JObj []]\<rparr>) =
   (exit_json \<lparr>changed = True, operation = ''create'',
               out_token = Some (JObj [(''AccessorID'', JStr ''ID-1'')])\<rparr>,
    [\<lparr>req_method = GET, req_base = ''http://localhost:8500/v1'', req_endpoint = agent_self,
      req_headers = [(''X-Consul-Token'', ''secret'')], req_json = None, req_verify = True\<rparr>,
     \<lparr>req_method = GET, req_base = ''http://localhost:8500/v1'', req_endpoint = acl_tokens,
      req_headers = [(''X-Consul-Token'', ''secret'')], req_json = None, req_verify = True\<rparr>,
     \<lparr>req_method = PUT, req_base = ''http://localhost:8500/v1'', req_endpoint = acl_token,
      req_headers = [(''X-Consul-Token'', ''secret'')],
      req_json =
        Some (JObj [(''AccessorID'', JStr ''ID-1''), (''Description'', JStr ''example''),
                    (''SecretID'', JNull),
                    (''Policies'', JList [JObj [(''ID'', JNull), (''Name'', JNull)]]),
                    (''Roles'', JList [JObj [(''ID'', JNull), (''Name'', JNull)]]),
                    (''Local'', JBool False)]),
      req_verify = True\<rparr>])"
proof -
  let ?T = "example_agent ''1.4.9'' (JList []) JNull (JObj [(''AccessorID'', JStr ''ID-1'')])"
  let ?v = "\<lparr>major = ''1'', minor = ''4'', patch = ''9''\<rparr>"
  let ?ci = "\<lparr>management_token = Some ''secret'', host = ''localhost'', port = 8500,
      scheme = ''http'', validate_certs = True, cfg_id = ''ID-1'',
      description = ''example'', token = None,
      roles = [\<lparr>rl_id = JNull, rl_name = JNull\<rparr>],
      policies = [\<lparr>pl_id = JNull, pl_name = JNull\<rparr>],
      service_identities =
        [\<lparr>si_name = JStr ''web'', si_datacenters = JList [JStr ''dc1'']\<rparr>],
      node_identities = [\<lparr>ni_name = JStr ''node-1'', ni_datacenter = JStr ''dc2''\<rparr>],
      local = False, state = ''present'', version = None\<rparr>"
  let ?c = "\<lparr>management_token = Some ''secret'', host = ''localhost'', port = 8500,
      scheme = ''http'', validate_certs = True, cfg_id = ''ID-1'',
      description = ''example'', token = None,
      roles = [\<lparr>rl_id = JNull, rl_name = JNull\<rparr>],
      policies = [\<lparr>pl_id = JNull, pl_name = JNull\<rparr>],
      service_identities =
        [\<lparr>si_name = JStr ''web'', si_datacenters = JList [JStr ''dc1'']\<rparr>],
      node_identities = [\<lparr>ni_name = JStr ''node-1'', ni_datacenter = JStr ''dc2''\<rparr>],
      local = False, state = ''present'', version = Some ?v\<rparr>"
  let ?r1 = "\<lparr>req_method = GET, req_base = ''http://localhost:8500/v1'',
      req_endpoint = agent_self, req_headers = [(''X-Consul-Token'', ''secret'')],
      req_json = None, req_verify = True\<rparr>"
  let ?r2 = "\<lparr>req_method = GET, req_base = ''http://localhost:8500/v1'',
      req_endpoint = acl_tokens, req_headers = [(''X-Consul-Token'', ''secret'')],
      req_json = None, req_verify = True\<rparr>"
  let ?data = "[(''AccessorID'', JStr ''ID-1''), (''Description'', JStr ''example''),
          (''SecretID'', JNull),
          (''Policies'', JList [JObj [(''ID'', JNull), (''Name'', JNull)]]),
          (''Roles'', JList [JObj [(''ID'', JNull), (''Name'', JNull)]]),
          (''Local'', JBool False)]"
  let ?r3 = "\<lparr>req_method = PUT, req_base = ''http://localhost:8500/v1'',
      req_endpoint = acl_token, req_headers = [(''X-Consul-Token'', ''secret'')],
      req_json = Some (JObj ?data), req_verify = True\<rparr>"
  have init: "Configuration_init (example_params\<lparr>p_policies := [JObj []], p_roles := [JObj []]\<rparr>) =
                Inr ?ci"
    by (simp add: Configuration_init_def example_params_def link_init_dict
        ServiceIdentity_init_def NodeIdentity_init_def)
  have req: "consul_request ?ci m ep b =
               \<lparr>req_method = m, req_base = ''http://localhost:8500/v1'', req_endpoint = ep,
                req_headers = [(''X-Consul-Token'', ''secret'')], req_json = b,
                req_verify = True\<rparr>"
    "consul_request ?c m ep b =
               \<lparr>req_method = m, req_base = ''http://localhost:8500/v1'', req_endpoint = ep,
                req_headers = [(''X-Consul-Token'', ''secret'')], req_json = b,
                req_verify = True\<rparr>" for m ep b
    by (simp_all add: consul_request_def get_consul_url_def get_auth_headers_def
        str_int_def str_nat.simps)
  have ver: "get_consul_version ?T ?ci [] = (Inr ?v, [?r1])"
    by (simp add: get_consul_version_def checked_call_eq req example_agent_def ok_response_def
        response_json_def subscript_def ConsulVersion_init_def)
  have data: "create_token_data ?c = Inr ?data"
    by (simp add: create_token_data_def add_identities_eq [where v = ?v] example_versions
        secret_id_def PolicyLink_to_dict_def RoleLink_to_dict_def)
  have gt: "fst (get_tokens ?T ?c [?r1]) = Inr []"
    by (rule example_get_tokens)
  have absent: "index_get [] (JStr (cfg_id ?c)) = None"
    by simp
  have st: "set_token ?T ?c [?r1] = create_token ?T ?c [?r1, ?r2]"
    using set_token_absent [OF gt absent] by (simp add: req)
  have ct: "create_token ?T ?c [?r1, ?r2] =
     (Inr \<lparr>changed = True, operation = ''create'',
           out_token = Some (JObj [(''AccessorID'', JStr ''ID-1'')])\<rparr>, [?r1, ?r2, ?r3])"
    by (simp add: create_token_eq [OF data] req example_agent_def ok_response_def)
  show ?thesis
    by (simp add: main_def init ver st ct)
qed

end
